theory Spec2Isabelle
  imports Main "HOL-Library.Multiset"
begin

section \<open>Python values and exceptions\<close>

text \<open>
  The module \<^verbatim>\<open>deeplake/integrations/mmseg/mmseg_.py\<close> is glue between a tensor
  dataset, a configuration object and an external training framework. Configuration
  values and keyword arguments are dynamically typed; they are embedded as \<open>pyval\<close>.
  A dictionary is an association list: the order of its keys is the insertion order, and
  a key occurs once.
\<close>

datatype pyval =
    PNone
  | PBool bool
  | PInt int
  | PStr string
  | PList "pyval list"
  | PDict "(string \<times> pyval) list"

type_synonym pydict = "(string \<times> pyval) list"

text \<open>
  Every exception the module raises itself, and every exception of the interpreter that
  the modelled lines can raise, is a constructor; most carry their message or the missing
  key. \<open>MetricKeyError metric\<close> is the \<^verbatim>\<open>KeyError\<close> of line 232, whose message
  \<^verbatim>\<open>"metric {} is not supported".format(metric)\<close> is determined by the list of metric names.
  \<open>TensorDoesNotExistError\<close> and \<open>InvalidKeyTypeError\<close> are the errors of indexing a dataset.
  An exception raised inside an external collaborator is \<open>ExternalError\<close>.
\<close>

datatype error =
    KeyError string
  | AttributeError string
  | TypeError string
  | IndexError string
  | UnboundLocalError string
  | NotImplementedError string
  | ValueError string
  | MetricKeyError "string list"
  | Exception string
  | TensorDoesNotExistError string
  | InvalidKeyTypeError
  | ExternalError string

definition lift_ext :: "string + 'a \<Rightarrow> error + 'a" where
  "lift_ext r = (case r of Inl e \<Rightarrow> Inl (ExternalError e) | Inr v \<Rightarrow> Inr v)"

subsection \<open>Operations on Python values\<close>

text \<open>Truth value testing: \<^verbatim>\<open>if x:\<close>.\<close>

fun py_truthy :: "pyval \<Rightarrow> bool" where
  "py_truthy PNone = False"
| "py_truthy (PBool b) = b"
| "py_truthy (PInt n) = (n \<noteq> 0)"
| "py_truthy (PStr s) = (s \<noteq> [])"
| "py_truthy (PList xs) = (xs \<noteq> [])"
| "py_truthy (PDict d) = (d \<noteq> [])"

text \<open>\<^verbatim>\<open>d.get(k, default)\<close> and \<^verbatim>\<open>d[k]\<close> on a \<^verbatim>\<open>dict\<close>.\<close>

definition dict_get :: "pydict \<Rightarrow> string \<Rightarrow> pyval \<Rightarrow> pyval" where
  "dict_get d k dflt = (case map_of d k of None \<Rightarrow> dflt | Some v \<Rightarrow> v)"

definition dict_item :: "pydict \<Rightarrow> string \<Rightarrow> error + pyval" where
  "dict_item d k = (case map_of d k of None \<Rightarrow> Inl (KeyError k) | Some v \<Rightarrow> Inr v)"

text \<open>\<^verbatim>\<open>d[k] = v\<close>: an existing key keeps its position, a new key goes last.\<close>

fun dict_set :: "pydict \<Rightarrow> string \<Rightarrow> pyval \<Rightarrow> pydict" where
  "dict_set [] k v = [(k, v)]"
| "dict_set ((k', v') # d) k v = (if k' = k then (k, v) # d else (k', v') # dict_set d k v)"

text \<open>\<^verbatim>\<open>{**a, **b}\<close> on two dictionaries: the entries of \<open>b\<close> are stored after those of \<open>a\<close>.\<close>

definition dict_merge :: "pydict \<Rightarrow> pydict \<Rightarrow> pydict" where
  "dict_merge a b = fold (\<lambda>(k, v) d. dict_set d k v) b a"

text \<open>
  The same operations on a value that may or may not be a dictionary: \<^verbatim>\<open>x.get(k, default)\<close>,
  \<^verbatim>\<open>x[k]\<close> with a string key, the attribute access \<^verbatim>\<open>x.k\<close> of \<^verbatim>\<open>mmcv.ConfigDict\<close>
  (a missing key raises \<^verbatim>\<open>AttributeError\<close>, as does any attribute of a value that is not
  a dictionary), the unpacking \<^verbatim>\<open>**x\<close> and iteration \<^verbatim>\<open>for step in x\<close>.
\<close>

definition py_get :: "pyval \<Rightarrow> string \<Rightarrow> pyval \<Rightarrow> error + pyval" where
  "py_get x k dflt = (case x of PDict d \<Rightarrow> Inr (dict_get d k dflt) | _ \<Rightarrow> Inl (AttributeError ''get''))"

definition py_item :: "pyval \<Rightarrow> string \<Rightarrow> error + pyval" where
  "py_item x k =
     (case x of PDict d \<Rightarrow> dict_item d k | _ \<Rightarrow> Inl (TypeError ''indices must be integers or slices''))"

definition py_attr :: "pyval \<Rightarrow> string \<Rightarrow> error + pyval" where
  "py_attr x k =
     (case x of
        PDict d \<Rightarrow> (case map_of d k of None \<Rightarrow> Inl (AttributeError k) | Some v \<Rightarrow> Inr v)
      | _ \<Rightarrow> Inl (AttributeError k))"

definition py_mapping :: "pyval \<Rightarrow> error + pydict" where
  "py_mapping x = (case x of PDict d \<Rightarrow> Inr d | _ \<Rightarrow> Inl (TypeError ''not a mapping''))"

definition py_iter :: "pyval \<Rightarrow> error + pyval list" where
  "py_iter x =
     (case x of
        PList xs \<Rightarrow> Inr xs
      | PDict d \<Rightarrow> Inr (map (\<lambda>(k, v). PStr k) d)
      | PStr s \<Rightarrow> Inr (map (\<lambda>c. PStr [c]) s)
      | _ \<Rightarrow> Inl (TypeError ''object is not iterable''))"

section \<open>The dataset\<close>

text \<open>
  Modelled from the spec: the class \<^verbatim>\<open>deeplake.Dataset\<close> is not part of the module. The
  spec describes it as "a tensor-based dataset object exposing named-tensor indexing and
  per-tensor metadata (class-name lists)". A dataset holds its named tensors, each with the
  class names of its \<^verbatim>\<open>info\<close>, and the attribute \<^verbatim>\<open>CLASSES\<close> that \<^verbatim>\<open>build_dataloader\<close>
  assigns (\<open>None\<close> while it has never been assigned).
\<close>

record tensor =
  t_htype :: string
  t_class_names :: "string list"

record dataset =
  ds_tensors :: "(string \<times> tensor) list"
  ds_CLASSES :: "string list option"

text \<open>
  Modelled from the spec: \<^verbatim>\<open>dataset[key]\<close> as named-tensor indexing. A string that names
  no tensor and a key that is not a string raise.
\<close>

definition dataset_getitem :: "dataset \<Rightarrow> pyval \<Rightarrow> error + tensor" where
  "dataset_getitem ds key =
     (case key of
        PStr name \<Rightarrow>
          (case map_of (ds_tensors ds) name of
             None \<Rightarrow> Inl (TensorDoesNotExistError name)
           | Some t \<Rightarrow> Inr t)
      | _ \<Rightarrow> Inl InvalidKeyTypeError)"

section \<open>build_pipeline and build_dataloader\<close>

text \<open>
  \<^verbatim>\<open>build_pipeline(steps)\<close>, lines 675-682. The list comprehension visits the steps in
  order: it reads \<^verbatim>\<open>step["type"]\<close>, looks it up in the set of the two loading steps
  (a list or a dictionary cannot be hashed), and builds the step with the external
  \<^verbatim>\<open>build_from_cfg\<close> unless it is one of the two. \<^verbatim>\<open>Compose\<close> keeps the built steps in
  order.
\<close>

definition py_hashable :: "pyval \<Rightarrow> bool" where
  "py_hashable x = (case x of PList _ \<Rightarrow> False | PDict _ \<Rightarrow> False | _ \<Rightarrow> True)"

fun build_steps :: "(pyval \<Rightarrow> string + 'op) \<Rightarrow> pyval list \<Rightarrow> error + 'op list" where
  "build_steps build_from_cfg [] = Inr []"
| "build_steps build_from_cfg (step # steps) =
     (case py_item step ''type'' of
        Inl e \<Rightarrow> Inl e
      | Inr ty \<Rightarrow>
          if \<not> py_hashable ty then Inl (TypeError ''unhashable type'')
          else if ty \<noteq> PStr ''LoadImageFromFile'' \<and> ty \<noteq> PStr ''LoadAnnotations''
          then (case lift_ext (build_from_cfg step) of
                  Inl e \<Rightarrow> Inl e
                | Inr built \<Rightarrow>
                    (case build_steps build_from_cfg steps of
                       Inl e \<Rightarrow> Inl e
                     | Inr rest \<Rightarrow> Inr (built # rest)))
          else build_steps build_from_cfg steps)"

definition build_pipeline :: "(pyval \<Rightarrow> string + 'op) \<Rightarrow> pyval \<Rightarrow> error + 'op list" where
  "build_pipeline build_from_cfg steps =
     (case py_iter steps of Inl e \<Rightarrow> Inl e | Inr xs \<Rightarrow> build_steps build_from_cfg xs)"

text \<open>
  The loader that \<^verbatim>\<open>build_dataloader\<close> returns, described by what it was built from. The
  python backend (\<^verbatim>\<open>dataset.pytorch\<close>) is not given \<^verbatim>\<open>distributed\<close> and
  \<^verbatim>\<open>persistent_workers\<close>; the C++ backend (\<^verbatim>\<open>dataloader(dataset)\<close>) is. \<open>ld_mode\<close>,
  \<open>ld_num_gpus\<close>, \<open>ld_tensors_dict\<close> and \<open>ld_mmseg_CLASSES\<close> belong to the \<^verbatim>\<open>MMSegDataset\<close>
  attached to the loader, \<open>ld_CLASSES\<close> is \<^verbatim>\<open>loader.dataset.CLASSES\<close>. The external
  constructors are taken to succeed.
\<close>

record 'op loader =
  ld_python :: bool
  ld_tensors :: "pyval list"
  ld_tensors_dict :: pydict
  ld_num_workers :: pyval
  ld_shuffle :: pyval
  ld_batch_size :: pyval
  ld_mode :: pyval
  ld_pipeline :: "'op list"
  ld_distributed :: "pyval option"
  ld_persistent_workers :: "pyval option"
  ld_num_gpus :: pyval
  ld_mmseg_CLASSES :: "string list option"
  ld_CLASSES :: "string list"

text \<open>
  \<^verbatim>\<open>MMSegDataset.__init__\<close>, lines 99-125, as far as it can fail: in the modes \<^verbatim>\<open>val\<close>
  and \<^verbatim>\<open>test\<close> it indexes the dataset with the images tensor, then reads
  \<^verbatim>\<open>tensors_dict["masks_tensor"]\<close> for the class names. The result is the attribute
  \<^verbatim>\<open>CLASSES\<close> of the new object, which other modes leave unset.
\<close>

definition MMSegDataset_init :: "dataset \<Rightarrow> pydict \<Rightarrow> pyval \<Rightarrow> error + string list option" where
  "MMSegDataset_init ds tensors_dict mode =
     (if mode = PStr ''val'' \<or> mode = PStr ''test''
      then (case dict_item tensors_dict ''images_tensor'' of
              Inl e \<Rightarrow> Inl e
            | Inr images_tensor \<Rightarrow>
                (case dataset_getitem ds images_tensor of
                   Inl e \<Rightarrow> Inl e
                 | Inr images \<Rightarrow>
                     (case dict_item tensors_dict ''masks_tensor'' of
                        Inl e \<Rightarrow> Inl e
                      | Inr masks_tensor \<Rightarrow>
                          (case dataset_getitem ds masks_tensor of
                             Inl e \<Rightarrow> Inl e
                           | Inr masks \<Rightarrow> Inr (Some (t_class_names masks))))))
      else Inr None)"

definition dist_not_supported :: string where
  "dist_not_supported =
     ''Distributed training is not supported by the python data loader. Set deeplake_dataloader_type='c++' to use the C++ dtaloader instead.''"

definition persistent_workers_warning :: string where
  "persistent_workers_warning =
     ''Persistent workers are not supported for OSS dataloader. persistent_workers=False will be used instead.''"

text \<open>
  Lines 706-799 of \<^verbatim>\<open>build_dataloader\<close>: what follows the check of the distributed
  flag. The result comes with the warnings emitted.
\<close>

definition make_loader ::
  "dataset \<Rightarrow> string list \<Rightarrow> pyval \<Rightarrow> pyval \<Rightarrow> string \<Rightarrow> 'op list \<Rightarrow> pyval \<Rightarrow> pydict \<Rightarrow>
     pyval \<Rightarrow> pyval \<Rightarrow> (error + 'op loader) \<times> string list" where
  "make_loader dataset classes images_tensor masks_tensor implementation pipeline mode
       train_loader_config persistent_workers dist =
     (case (case dict_get train_loader_config ''num_workers'' PNone of
              PNone \<Rightarrow> dict_item train_loader_config ''workers_per_gpu''
            | v \<Rightarrow> Inr v) of
        Inl e \<Rightarrow> (Inl e, [])
      | Inr num_workers \<Rightarrow>
         (let shuffle = dict_get train_loader_config ''shuffle'' (PBool True);
              tensors_dict =
                (if masks_tensor \<noteq> PNone
                 then [(''images_tensor'', images_tensor), (''masks_tensor'', masks_tensor)]
                 else [(''images_tensor'', images_tensor)]);
              tensors =
                (if masks_tensor \<noteq> PNone then [images_tensor, masks_tensor] else [images_tensor])
          in case (case dict_get train_loader_config ''batch_size'' PNone of
                     PNone \<Rightarrow> dict_item train_loader_config ''samples_per_gpu''
                   | v \<Rightarrow> Inr v) of
               Inl e \<Rightarrow> (Inl e, [])
             | Inr batch_size \<Rightarrow>
                (let warnings =
                       (if implementation = ''python'' \<and> py_truthy persistent_workers
                        then [persistent_workers_warning] else [])
                 in case dict_item train_loader_config ''num_gpus'' of
                      Inl e \<Rightarrow> (Inl e, warnings)
                    | Inr num_gpus \<Rightarrow>
                       (case MMSegDataset_init dataset tensors_dict mode of
                          Inl e \<Rightarrow> (Inl e, warnings)
                        | Inr mmseg_classes \<Rightarrow>
                           (Inr \<lparr>ld_python = (implementation = ''python''),
                                 ld_tensors = tensors,
                                 ld_tensors_dict = tensors_dict,
                                 ld_num_workers = num_workers,
                                 ld_shuffle = shuffle,
                                 ld_batch_size = batch_size,
                                 ld_mode = mode,
                                 ld_pipeline = pipeline,
                                 ld_distributed =
                                   (if implementation = ''python'' then None else Some dist),
                                 ld_persistent_workers =
                                   (if implementation = ''python'' then None
                                    else Some persistent_workers),
                                 ld_num_gpus = num_gpus,
                                 ld_mmseg_CLASSES = mmseg_classes,
                                 ld_CLASSES = classes\<rparr>,
                            warnings)))))"

text \<open>
  \<^verbatim>\<open>build_dataloader(dataset, images_tensor, masks_tensor, implementation, pipeline, mode,
  **train_loader_config)\<close>, lines 685-799. The result is the loader or the exception, the
  dataset as the call leaves it, and the warnings emitted.
\<close>

definition build_dataloader ::
  "(pyval \<Rightarrow> string + 'op) \<Rightarrow> dataset \<Rightarrow> pyval \<Rightarrow> pyval \<Rightarrow> string \<Rightarrow> pyval \<Rightarrow> pyval \<Rightarrow> pydict \<Rightarrow>
     (error + 'op loader) \<times> dataset \<times> string list" where
  "build_dataloader build_from_cfg dataset0 images_tensor masks_tensor implementation pipeline0
       mode train_loader_config =
     (case dataset_getitem dataset0 masks_tensor of
        Inl e \<Rightarrow> (Inl e, dataset0, [])
      | Inr masks \<Rightarrow>
         (let classes = t_class_names masks;
              dataset = dataset0\<lparr>ds_CLASSES := Some classes\<rparr>
          in case build_pipeline build_from_cfg pipeline0 of
               Inl e \<Rightarrow> (Inl e, dataset, [])
             | Inr pipeline \<Rightarrow>
                (let persistent_workers =
                       dict_get train_loader_config ''persistent_workers'' (PBool False)
                 in case dict_item train_loader_config ''dist'' of
                      Inl e \<Rightarrow> (Inl e, dataset, [])
                    | Inr dist \<Rightarrow>
                       if py_truthy dist \<and> implementation = ''python''
                       then (Inl (NotImplementedError dist_not_supported), dataset, [])
                       else (case make_loader dataset classes images_tensor masks_tensor
                                    implementation pipeline mode train_loader_config
                                    persistent_workers dist of
                               (r, warnings) \<Rightarrow> (r, dataset, warnings)))))"

section \<open>The per-sample transform\<close>

text \<open>
  A \<^verbatim>\<open>numpy\<close> array: its shape and its elements in row-major order.
\<close>

record 'a ndarray =
  nd_shape :: "nat list"
  nd_data :: "'a list"

text \<open>An array has as many elements as its shape says.\<close>

definition nd_wf :: "'a ndarray \<Rightarrow> bool" where
  "nd_wf a \<longleftrightarrow> length (nd_data a) = prod_list (nd_shape a)"

text \<open>\<^verbatim>\<open>a[i, j]\<close> of a two-dimensional and \<^verbatim>\<open>a[i, j, k]\<close> of a three-dimensional array.\<close>

definition nd_item2 :: "'a ndarray \<Rightarrow> nat \<Rightarrow> nat \<Rightarrow> 'a" where
  "nd_item2 a i j = nd_data a ! (i * (nd_shape a ! 1) + j)"

definition nd_item3 :: "'a ndarray \<Rightarrow> nat \<Rightarrow> nat \<Rightarrow> nat \<Rightarrow> 'a" where
  "nd_item3 a i j k = nd_data a ! ((i * (nd_shape a ! 1) + j) * (nd_shape a ! 2) + k)"

text \<open>\<^verbatim>\<open>np.expand_dims(a, -1)\<close>.\<close>

definition expand_dims_last :: "'a ndarray \<Rightarrow> 'a ndarray" where
  "expand_dims_last a = a\<lparr>nd_shape := nd_shape a @ [1]\<rparr>"

text \<open>
  \<^verbatim>\<open>a[..., ::-1]\<close>: every run of \<open>c\<close> elements along the last axis is reversed. An array
  of no dimension cannot be sliced.
\<close>

definition flip_last_axis :: "'a ndarray \<Rightarrow> error + 'a ndarray" where
  "flip_last_axis a =
     (if nd_shape a = [] then Inl (IndexError ''too many indices for array'')
      else let c = last (nd_shape a) in
        Inr (a\<lparr>nd_data :=
               map (\<lambda>p. nd_data a ! ((p div c) * c + (c - 1 - p mod c)))
                 [0 ..< length (nd_data a)]\<rparr>))"

text \<open>
  \<^verbatim>\<open>np.repeat(a, 3, axis=2)\<close> for an array whose axis 2 has length 1 (the only use, line
  341): each block below axis 2, of \<open>b\<close> elements, is stored three times in a row.
\<close>

definition repeat3_axis2 :: "'a ndarray \<Rightarrow> 'a ndarray" where
  "repeat3_axis2 a =
     (let b = prod_list (drop 3 (nd_shape a)) in
      \<lparr>nd_shape = (nd_shape a)[2 := 3],
       nd_data = map (\<lambda>p. nd_data a ! ((p div (3 * b)) * b + p mod b))
                   [0 ..< 3 * length (nd_data a)]\<rparr>)"

text \<open>
  \<^verbatim>\<open>np.ascontiguousarray(a, dtype=np.float32)\<close>: the conversion of the elements to
  \<open>float32\<close> is the parameter \<open>cast\<close>.
\<close>

definition astype :: "('a \<Rightarrow> 'f) \<Rightarrow> 'a ndarray \<Rightarrow> 'f ndarray" where
  "astype cast a = \<lparr>nd_shape = nd_shape a, nd_data = map cast (nd_data a)\<rparr>"

text \<open>The dictionary that \<^verbatim>\<open>transform\<close> hands to the pipeline, lines 344-353.\<close>

record ('a, 'f) pipeline_dict =
  pd_img :: "'f ndarray"
  pd_img_fields :: "string list"
  pd_filename :: "string option"
  pd_ori_filename :: "string option"
  pd_img_shape :: "nat list"
  pd_ori_shape :: "nat list"
  pd_gt_semantic_seg :: "'a ndarray"
  pd_seg_fields :: "string list"

text \<open>
  \<^verbatim>\<open>transform(sample_in, images_tensor, masks_tensor, pipeline)\<close>, lines 322-355. The
  sample maps tensor names to arrays; \<^verbatim>\<open>img.shape[2]\<close> raises on an array of fewer than
  three dimensions.
\<close>

definition transform ::
  "('a \<Rightarrow> 'f) \<Rightarrow> (string \<times> 'a ndarray) list \<Rightarrow> string \<Rightarrow> string \<Rightarrow>
     (('a, 'f) pipeline_dict \<Rightarrow> 'r) \<Rightarrow> error + 'r" where
  "transform float32 sample_in images_tensor masks_tensor pipeline =
     (case map_of sample_in images_tensor of
        None \<Rightarrow> Inl (KeyError images_tensor)
      | Some img0 \<Rightarrow>
         (case map_of sample_in masks_tensor of
            None \<Rightarrow> Inl (KeyError masks_tensor)
          | Some gt_mask \<Rightarrow>
             (let img1 = (if length (nd_shape img0) = 2 then expand_dims_last img0 else img0)
              in case flip_last_axis img1 of
                   Inl e \<Rightarrow> Inl e
                 | Inr img2 \<Rightarrow>
                    if length (nd_shape img2) \<le> 2
                    then Inl (IndexError ''tuple index out of range'')
                    else
                      (let img = (if nd_shape img2 ! 2 = 1 then repeat3_axis2 img2 else img2);
                           shape = nd_shape img
                       in Inr (pipeline
                            \<lparr>pd_img = astype float32 img,
                             pd_img_fields = [''img''],
                             pd_filename = None,
                             pd_ori_filename = None,
                             pd_img_shape = shape,
                             pd_ori_shape = shape,
                             pd_gt_semantic_seg = gt_mask,
                             pd_seg_fields = [''gt_semantic_seg'']\<rparr>)))))"

section \<open>MMSegDataset.evaluate\<close>

text \<open>
  The fields of \<^verbatim>\<open>MMSegDataset\<close> that \<^verbatim>\<open>evaluate\<close> reads. \<^verbatim>\<open>CLASSES\<close> is
  \<open>None\<close> when it holds Python's \<^verbatim>\<open>None\<close>.
\<close>

record mmseg_dataset =
  md_num_gpus :: int
  md_ignore_index :: int
  md_reduce_zero_label :: bool
  md_CLASSES :: "string list option"

text \<open>
  An element of the \<^verbatim>\<open>results\<close> list: a predicted segmentation map
  (\<^verbatim>\<open>np.ndarray\<close>), a file name, or a tuple of pre-evaluation tensors.
\<close>

datatype ('a, 'p) eval_result = ResNdarray 'a | ResStr string | ResPreEval 'p

text \<open>The \<^verbatim>\<open>metric\<close> argument: \<^verbatim>\<open>str | list[str]\<close>.\<close>

datatype metric_arg = MetricStr string | MetricList "string list"

text \<open>
  A value of the metrics dictionary: a \<^verbatim>\<open>numpy\<close> scalar (as \<^verbatim>\<open>aAcc\<close> is) or a
  one-dimensional array with one element per class. \<open>np_map\<close> applies an operation to every
  element, \<open>np_index\<close> is \<^verbatim>\<open>value[idx]\<close>.
\<close>

datatype 'f npvalue = NpScalar 'f | NpArray "'f list"

fun np_map :: "('f \<Rightarrow> 'f) \<Rightarrow> 'f npvalue \<Rightarrow> 'f npvalue" where
  "np_map g (NpScalar x) = NpScalar (g x)"
| "np_map g (NpArray xs) = NpArray (map g xs)"

definition np_index :: "'f npvalue \<Rightarrow> nat \<Rightarrow> error + 'f" where
  "np_index v idx =
     (case v of
        NpScalar x \<Rightarrow> Inl (IndexError ''invalid index to scalar variable'')
      | NpArray xs \<Rightarrow>
          if idx < length xs then Inr (xs ! idx) else Inl (IndexError ''index out of bounds''))"

text \<open>
  A dictionary with values of any type: \<^verbatim>\<open>d[k] = v\<close> and \<^verbatim>\<open>d.update(entries)\<close>, which
  stores the entries in their order.
\<close>

fun od_set :: "(string \<times> 'v) list \<Rightarrow> string \<Rightarrow> 'v \<Rightarrow> (string \<times> 'v) list" where
  "od_set [] k v = [(k, v)]"
| "od_set ((k', v') # d) k v = (if k' = k then (k, v) # d else (k', v') # od_set d k v)"

definition od_update :: "(string \<times> 'v) list \<Rightarrow> (string \<times> 'v) list \<Rightarrow> (string \<times> 'v) list" where
  "od_update d entries = fold (\<lambda>(k, v) d. od_set d k v) entries d"

text \<open>Lines 296-300: the key of a summary entry.\<close>

definition summary_key :: "string \<Rightarrow> string" where
  "summary_key key = (if key = ''aAcc'' then key else ''m'' @ key)"

text \<open>
  Lines 303-309. For one metric, the dictionary comprehension
  \<^verbatim>\<open>{key + "." + str(name): value[idx] / 100.0 for idx, name in enumerate(class_names)}\<close>
  (the class names are strings), evaluated in the order of the classes; then the loop over
  the metrics, each updating the results with its entries.
\<close>

fun class_entries ::
  "('f \<Rightarrow> 'f) \<Rightarrow> string \<Rightarrow> 'f npvalue \<Rightarrow> nat \<Rightarrow> string list \<Rightarrow> error + (string \<times> 'f) list" where
  "class_entries div100 key value idx [] = Inr []"
| "class_entries div100 key value idx (name # names) =
     (case np_index value idx of
        Inl e \<Rightarrow> Inl e
      | Inr x \<Rightarrow>
          (case class_entries div100 key value (Suc idx) names of
             Inl e \<Rightarrow> Inl e
           | Inr entries \<Rightarrow> Inr ((key @ ''.'' @ name, div100 x) # entries)))"

fun update_classes ::
  "('f \<Rightarrow> 'f) \<Rightarrow> string list \<Rightarrow> (string \<times> 'f npvalue) list \<Rightarrow> (string \<times> 'f) list \<Rightarrow>
     error + (string \<times> 'f) list" where
  "update_classes div100 class_names [] eval_results = Inr eval_results"
| "update_classes div100 class_names ((key, value) # rest) eval_results =
     (case class_entries div100 key value 0 class_names of
        Inl e \<Rightarrow> Inl e
      | Inr entries \<Rightarrow> update_classes div100 class_names rest (od_update eval_results entries))"

text \<open>
  The floating-point operations of \<^verbatim>\<open>numpy\<close> that lines 259-311 use, as parameters:
  \<^verbatim>\<open>np.nanmean\<close>, the multiplication \<^verbatim>\<open>x * 100\<close>, \<^verbatim>\<open>np.round(x, 2)\<close> and the division
  \<^verbatim>\<open>x / 100.0\<close>; on an array the last three work element by element. \<open>print_tables\<close>
  stands for building and logging the two tables of lines 278-293 from the per-class
  metrics, the class names and the summary; it may raise.
\<close>

record 'f float_ops =
  np_nanmean :: "'f npvalue \<Rightarrow> 'f"
  np_times100 :: "'f \<Rightarrow> 'f"
  np_round2 :: "'f \<Rightarrow> 'f"
  np_div100 :: "'f \<Rightarrow> 'f"
  print_tables ::
    "(string \<times> 'f npvalue) list \<Rightarrow> string list \<Rightarrow> (string \<times> 'f) list \<Rightarrow> string + unit"

text \<open>
  Lines 259-311: the summary (lines 260-265), the per-class metrics without \<^verbatim>\<open>aAcc\<close>
  (lines 268-274), the tables, and the result dictionary: first the summary entries, then
  the entries of every class for every per-class metric (a metric named \<^verbatim>\<open>Class\<close> is
  replaced by the class names at line 275 and removed at line 302).
\<close>

definition metrics_summary :: "'f float_ops \<Rightarrow> (string \<times> 'f npvalue) list \<Rightarrow> (string \<times> 'f) list" where
  "metrics_summary env ret_metrics =
     map (\<lambda>(ret_metric, ret_metric_value).
            (ret_metric, np_round2 env (np_times100 env (np_nanmean env ret_metric_value))))
       ret_metrics"

definition metrics_class ::
  "'f float_ops \<Rightarrow> (string \<times> 'f npvalue) list \<Rightarrow> (string \<times> 'f npvalue) list" where
  "metrics_class env ret_metrics =
     map (\<lambda>(ret_metric, ret_metric_value).
            (ret_metric, np_map (\<lambda>x. np_round2 env (np_times100 env x)) ret_metric_value))
       ret_metrics"

definition format_results ::
  "'f float_ops \<Rightarrow> (string \<times> 'f npvalue) list \<Rightarrow> string list \<Rightarrow> error + (string \<times> 'f) list" where
  "format_results env ret_metrics0 class_names =
     (let ret_metrics_summary = metrics_summary env ret_metrics0;
          ret_metrics = filter (\<lambda>(k, v). k \<noteq> ''aAcc'') ret_metrics0;
          ret_metrics_class = metrics_class env ret_metrics
      in case lift_ext (print_tables env ret_metrics_class class_names ret_metrics_summary) of
           Inl e \<Rightarrow> Inl e
         | Inr _ \<Rightarrow>
             update_classes (np_div100 env) class_names
               (filter (\<lambda>(k, v). k \<noteq> ''Class'') ret_metrics_class)
               (od_update []
                  (map (\<lambda>(key, value). (summary_key key, np_div100 env value))
                     ret_metrics_summary)))"

text \<open>
  The collaborators of \<^verbatim>\<open>evaluate\<close>: \<^verbatim>\<open>mmseg.core.eval_metrics\<close> and
  \<^verbatim>\<open>mmseg.core.pre_eval_to_metrics\<close>, which return the dictionary of the metrics (its
  keys in order), the generator \<^verbatim>\<open>self.get_gt_seg_maps()\<close> over the masks held in memory,
  and the operations of \<^verbatim>\<open>numpy\<close>.
\<close>

record ('a, 'p, 'g, 'f) eval_env =
  eval_metrics ::
    "('a, 'p) eval_result list \<Rightarrow> 'g \<Rightarrow> nat \<Rightarrow> int \<Rightarrow> string list \<Rightarrow> bool \<Rightarrow>
       string + (string \<times> 'f npvalue) list"
  pre_eval_to_metrics ::
    "('a, 'p) eval_result list \<Rightarrow> string list \<Rightarrow> string + (string \<times> 'f npvalue) list"
  get_gt_seg_maps :: "'g"
  numpy :: "'f float_ops"

text \<open>
  \<^verbatim>\<open>xs[i::n]\<close> for \<open>0 \<le> i\<close> and \<open>1 \<le> n\<close>: the elements at positions
  \<open>i, i + n, i + 2n, \<dots>\<close> below \<open>len(xs)\<close>; the slice has
  \<open>\<lceil>(len(xs) - i) / n\<rceil>\<close> elements, none when \<open>len(xs) \<le> i\<close>.
\<close>

definition py_slice_from_step :: "'a list \<Rightarrow> nat \<Rightarrow> nat \<Rightarrow> 'a list" where
  "py_slice_from_step xs i n =
     map (\<lambda>k. xs ! (i + k * n)) [0 ..< (length xs - i + n - 1) div n]"

text \<open>
  Lines 222-226:
  \<^verbatim>\<open>
  if self.num_gpus > 1:
      results_ordered = []
      for i in range(self.num_gpus):
          results_ordered += results[i :: self.num_gpus]
      results = results_ordered
  \<close>
\<close>

definition reorder_results :: "int \<Rightarrow> 'a list \<Rightarrow> 'a list" where
  "reorder_results num_gpus results =
     (if num_gpus > 1
      then fold (\<lambda>i results_ordered.
                   results_ordered @ py_slice_from_step results i (nat num_gpus))
             [0 ..< nat num_gpus] []
      else results)"

definition allowed_metrics :: "string list" where
  "allowed_metrics = [''mIoU'', ''mDice'', ''mFscore'']"

text \<open>Lines 228-229: a single metric name stands for the list holding it.\<close>

definition metric_list :: "metric_arg \<Rightarrow> string list" where
  "metric_list metric = (case metric of MetricStr s \<Rightarrow> [s] | MetricList ms \<Rightarrow> ms)"

text \<open>\<^verbatim>\<open>mmcv.is_list_of(results, np.ndarray)\<close> and \<^verbatim>\<open>mmcv.is_list_of(results, str)\<close>.\<close>

definition is_list_of_ndarray :: "('a, 'p) eval_result list \<Rightarrow> bool" where
  "is_list_of_ndarray rs = list_all (\<lambda>r. case r of ResNdarray _ \<Rightarrow> True | _ \<Rightarrow> False) rs"

definition is_list_of_str :: "('a, 'p) eval_result list \<Rightarrow> bool" where
  "is_list_of_str rs = list_all (\<lambda>r. case r of ResStr _ \<Rightarrow> True | _ \<Rightarrow> False) rs"

text \<open>
  Lines 234-251: the metrics, from \<^verbatim>\<open>eval_metrics\<close> when the results are arrays or file
  names and from \<^verbatim>\<open>pre_eval_to_metrics\<close> otherwise. \<^verbatim>\<open>len(self.CLASSES)\<close> raises a
  \<^verbatim>\<open>TypeError\<close> when \<^verbatim>\<open>CLASSES\<close> is \<^verbatim>\<open>None\<close>.
\<close>

definition compute_metrics ::
  "('a, 'p, 'g, 'f) eval_env \<Rightarrow> mmseg_dataset \<Rightarrow> ('a, 'p) eval_result list \<Rightarrow> string list \<Rightarrow>
     'g option \<Rightarrow> error + (string \<times> 'f npvalue) list" where
  "compute_metrics env self results metric gt_seg_maps0 =
     (if is_list_of_ndarray results \<or> is_list_of_str results
      then
        (let gt_seg_maps =
               (case gt_seg_maps0 of None \<Rightarrow> get_gt_seg_maps env | Some g \<Rightarrow> g)
         in case md_CLASSES self of
              None \<Rightarrow> Inl (TypeError ''object of type 'NoneType' has no len()'')
            | Some classes \<Rightarrow>
                lift_ext (eval_metrics env results gt_seg_maps (length classes)
                            (md_ignore_index self) metric (md_reduce_zero_label self)))
      else lift_ext (pre_eval_to_metrics env results metric))"

text \<open>
  \<^verbatim>\<open>MMSegDataset.evaluate(self, results, metric, logger, gt_seg_maps)\<close>, lines 204-311.
  When \<^verbatim>\<open>CLASSES\<close> is \<^verbatim>\<open>None\<close>, line 255 reads \<^verbatim>\<open>num_classes\<close>, which is not bound
  on the branch that got there.
\<close>

definition evaluate ::
  "('a, 'p, 'g, 'f) eval_env \<Rightarrow> mmseg_dataset \<Rightarrow> ('a, 'p) eval_result list \<Rightarrow>
     metric_arg \<Rightarrow> 'g option \<Rightarrow> error + (string \<times> 'f) list" where
  "evaluate env self results0 metric0 gt_seg_maps0 =
     (let results = reorder_results (md_num_gpus self) results0;
          metric = metric_list metric0
      in if \<not> set metric \<subseteq> set allowed_metrics then Inl (MetricKeyError metric)
         else
           (case compute_metrics env self results metric gt_seg_maps0 of
              Inl e \<Rightarrow> Inl e
            | Inr ret_metrics \<Rightarrow>
                (case md_CLASSES self of
                   None \<Rightarrow> Inl (UnboundLocalError ''num_classes'')
                 | Some class_names \<Rightarrow> format_results (numpy env) ret_metrics class_names)))"

section \<open>The training function\<close>

text \<open>
  \<^verbatim>\<open>_train_segmentor\<close> (lines 408-672) is a sequence of steps on the configuration and
  on external objects (model, runner, hooks). The steps that decide what the function
  raises, warns about, and builds for validation are embedded, each as a function of the
  variables that are live where it starts. A step returns its value or the exception it
  raises, together with the warnings it has emitted through \<^verbatim>\<open>always_warn\<close>.
\<close>

type_synonym 'a outcome = "(error + 'a) \<times> string list"

definition returns :: "'a \<Rightarrow> 'a outcome" where
  "returns v = (Inr v, [])"

definition raises :: "error \<Rightarrow> 'a outcome" where
  "raises e = (Inl e, [])"

definition always_warn :: "string \<Rightarrow> unit outcome" where
  "always_warn msg = (Inr (), [msg])"

definition pure :: "error + 'a \<Rightarrow> 'a outcome" where
  "pure r = (r, [])"

definition and_then :: "'a outcome \<Rightarrow> ('a \<Rightarrow> 'b outcome) \<Rightarrow> 'b outcome" where
  "and_then m f =
     (case m of
        (Inl e, ws) \<Rightarrow> (Inl e, ws)
      | (Inr v, ws) \<Rightarrow> (case f v of (r, ws') \<Rightarrow> (r, ws @ ws')))"

text \<open>
  The collaborators of \<^verbatim>\<open>_train_segmentor\<close> that the embedded steps call. They belong to
  other modules (\<^verbatim>\<open>deeplake.integrations.mm.mm_common\<close>,
  \<^verbatim>\<open>deeplake.enterprise.dataloader\<close>, \<^verbatim>\<open>mmcv\<close>, \<^verbatim>\<open>mmseg\<close>) and are parameters: each
  returns its value or the name of the exception it raises.
  \<^verbatim>\<open>find_tensor_with_htype\<close> returns a tensor name or \<^verbatim>\<open>None\<close>;
  \<open>x_register_eval_hook\<close> stands for building \<^verbatim>\<open>EvalHook\<close> or \<^verbatim>\<open>DistEvalHook\<close> (the flag
  says which) from the loader and the evaluation settings and registering it with the
  runner.
\<close>

record 'op externals =
  x_build_from_cfg :: "pyval \<Rightarrow> string + 'op"
  x_load_ds_from_cfg :: "pyval \<Rightarrow> string + dataset option"
  x_find_tensor_with_htype :: "dataset \<Rightarrow> string \<Rightarrow> string \<Rightarrow> string + pyval"
  x_get_collect_keys :: "pyval \<Rightarrow> string + string list"
  x_check_persistent_workers :: "pyval \<Rightarrow> pyval \<Rightarrow> string + unit"
  x_register_eval_hook :: "bool \<Rightarrow> pydict \<Rightarrow> string + unit"

subsection \<open>The data-loading backend, lines 439-450\<close>

text \<open>\<^verbatim>\<open>str.lower()\<close> on the letters of ASCII, and on a value that may not be a string.\<close>

definition lower_char :: "char \<Rightarrow> char" where
  "lower_char c =
     (case map_of (zip ''ABCDEFGHIJKLMNOPQRSTUVWXYZ'' ''abcdefghijklmnopqrstuvwxyz'') c of
        None \<Rightarrow> c
      | Some l \<Rightarrow> l)"

definition py_lower :: "pyval \<Rightarrow> error + string" where
  "py_lower x = (case x of PStr s \<Rightarrow> Inr (map lower_char s) | _ \<Rightarrow> Inl (AttributeError ''lower''))"

definition dataloader_type_invalid :: string where
  "dataloader_type_invalid =
     ''`deeplake_dataloader_type` should be one of ['auto', 'c++', 'python'].''"

text \<open>
  \<^verbatim>\<open>
  dl_impl = cfg.get("deeplake_dataloader_type", "auto").lower()
  if dl_impl == "auto":
      dl_impl = "c++" if indra_available() else "python"
  elif dl_impl == "cpp":
      dl_impl = "c++"
  if dl_impl not in {"c++", "python"}:
      raise ValueError(...)
  \<close>
  \<^verbatim>\<open>indra_available()\<close> is external; its result is the first argument.
\<close>

definition dataloader_type :: "bool \<Rightarrow> pyval \<Rightarrow> string outcome" where
  "dataloader_type indra_available cfg =
     and_then (pure (py_get cfg ''deeplake_dataloader_type'' (PStr ''auto''))) (\<lambda>flag.
     and_then (pure (py_lower flag)) (\<lambda>dl_impl0.
       let dl_impl =
             (if dl_impl0 = ''auto'' then (if indra_available then ''c++'' else ''python'')
              else if dl_impl0 = ''cpp'' then ''c++''
              else dl_impl0)
       in if dl_impl \<noteq> ''c++'' \<and> dl_impl \<noteq> ''python''
          then raises (ValueError dataloader_type_invalid)
          else returns dl_impl))"

subsection \<open>The evaluation hook, lines 566-644\<close>

definition validation_not_specified :: string where
  "validation_not_specified =
     ''Validation dataset is not specified even though validate = True. Please set validate = False or specify a validation dataset.''"

definition shuffle_ignored :: string where
  "shuffle_ignored = ''shuffle argument for validation dataset will be ignored.''"

definition dataset_given_twice :: string where
  "dataset_given_twice =
     ''A Deep Lake dataset was specified in the cfg as well as inthe dataset input to train_detector. The dataset input to train_detector will be used in the workflow.''"

text \<open>\<^verbatim>\<open>len(x)\<close>.\<close>

definition py_len :: "pyval \<Rightarrow> error + nat" where
  "py_len x =
     (case x of
        PList xs \<Rightarrow> Inr (length xs)
      | PStr s \<Rightarrow> Inr (length s)
      | PDict d \<Rightarrow> Inr (length d)
      | _ \<Rightarrow> Inl (TypeError ''object has no len()''))"

text \<open>
  Lines 591-614: the validation dataset and its tensor names. \<open>ds_val0\<close> and
  \<open>ds_val_tensors0\<close> are the arguments \<^verbatim>\<open>ds_val\<close> and \<^verbatim>\<open>ds_val_tensors\<close> of
  \<^verbatim>\<open>_train_segmentor\<close>.
\<close>

definition validation_dataset ::
  "'op externals \<Rightarrow> pyval \<Rightarrow> dataset option \<Rightarrow> pyval \<Rightarrow> (dataset \<times> pyval) outcome" where
  "validation_dataset ext cfg ds_val0 ds_val_tensors0 =
     (case ds_val0 of
        None \<Rightarrow>
          and_then (pure (py_attr cfg ''data'')) (\<lambda>data.
          and_then (pure (py_get data ''val'' PNone)) (\<lambda>cfg_ds_val.
            if cfg_ds_val = PNone then raises (Exception validation_not_specified)
            else
              and_then (pure (py_get cfg_ds_val ''deeplake_path'' PNone)) (\<lambda>path.
                if path = PNone then raises (Exception validation_not_specified)
                else
                  and_then (pure (py_attr data ''val'')) (\<lambda>val.
                  and_then (pure (lift_ext (x_load_ds_from_cfg ext val))) (\<lambda>ds_val.
                  and_then (pure (py_get val ''deeplake_tensors'' (PDict []))) (\<lambda>ds_val_tensors.
                    case ds_val of
                      None \<Rightarrow> raises (Exception validation_not_specified)
                    | Some ds \<Rightarrow> returns (ds, ds_val_tensors)))))))
      | Some ds \<Rightarrow>
          and_then (pure (py_attr cfg ''data'')) (\<lambda>data.
          and_then (pure (py_attr data ''val'')) (\<lambda>val.
          and_then (pure (py_get val ''deeplake_path'' PNone)) (\<lambda>cfg_data.
          and_then (if cfg_data \<noteq> PNone then always_warn dataset_given_twice else returns ())
            (\<lambda>_. returns (ds, ds_val_tensors0))))))"

text \<open>
  Lines 616-626: the names of the images tensor and of the masks tensor of the validation
  dataset.
\<close>

definition validation_tensors ::
  "'op externals \<Rightarrow> pyval \<Rightarrow> dataset \<Rightarrow> pyval \<Rightarrow> pyval \<Rightarrow> (pyval \<times> pyval) outcome" where
  "validation_tensors ext cfg ds_val ds_val_tensors ds_train_tensors =
     (if py_truthy ds_val_tensors
      then
        and_then (pure (py_item ds_val_tensors ''img'')) (\<lambda>val_images_tensor.
        and_then (pure (py_get ds_train_tensors ''gt_semantic_seg'' PNone)) (\<lambda>val_masks_tensor.
          returns (val_images_tensor, val_masks_tensor)))
      else
        and_then (pure (lift_ext (x_find_tensor_with_htype ext ds_val ''image'' ''img'')))
          (\<lambda>val_images_tensor.
        and_then (pure (lift_ext (x_get_collect_keys ext cfg))) (\<lambda>collection_keys.
          if ''gt_semantic_seg'' \<in> set collection_keys
          then
            and_then (pure (lift_ext (x_find_tensor_with_htype ext ds_val ''segment_mask''
                                        ''gt_semantic_seg'')))
              (\<lambda>val_masks_tensor. returns (val_images_tensor, val_masks_tensor))
          else returns (val_images_tensor, PNone))))"

text \<open>
  The call \<^verbatim>\<open>build_dataloader(ds, images, masks, pipeline=..., implementation=...,
  **kwargs)\<close>: a keyword of \<open>kwargs\<close> that names an argument already given is a
  \<^verbatim>\<open>TypeError\<close>, the keyword \<open>mode\<close> binds the parameter of that name (default
  \<^verbatim>\<open>"train"\<close>), the others are \<^verbatim>\<open>train_loader_config\<close>. The result is the loader with the
  dataset as the call leaves it.
\<close>

definition call_build_dataloader ::
  "(pyval \<Rightarrow> string + 'op) \<Rightarrow> dataset \<Rightarrow> pyval \<Rightarrow> pyval \<Rightarrow> pyval \<Rightarrow> string \<Rightarrow> pydict \<Rightarrow>
     ('op loader \<times> dataset) outcome" where
  "call_build_dataloader build_from_cfg ds images_tensor masks_tensor pipeline implementation
       kwargs =
     (if \<exists>k \<in> set [''dataset'', ''images_tensor'', ''masks_tensor'', ''implementation'',
                     ''pipeline'']. k \<in> fst ` set kwargs
      then raises (TypeError ''got multiple values for argument'')
      else
        (case build_dataloader build_from_cfg ds images_tensor masks_tensor implementation
                pipeline (dict_get kwargs ''mode'' (PStr ''train''))
                (filter (\<lambda>(k, v). k \<noteq> ''mode'') kwargs) of
           (Inl e, ds', ws) \<Rightarrow> (Inl e, ws)
         | (Inr loader, ds', ws) \<Rightarrow> (Inr (loader, ds'), ws)))"

text \<open>What the validation step registers with the runner.\<close>

record 'op eval_hook =
  eh_dataloader :: "'op loader"
  eh_dataset :: dataset
  eh_distributed :: bool
  eh_eval_cfg :: pydict

text \<open>
  Lines 566-644, \<^verbatim>\<open>if validate: ...\<close>. The arguments after \<open>cfg\<close> are the arguments
  \<^verbatim>\<open>ds_val\<close>, \<^verbatim>\<open>ds_val_tensors\<close> and \<^verbatim>\<open>distributed\<close> of \<^verbatim>\<open>_train_segmentor\<close> and its
  local variables \<^verbatim>\<open>ds_train_tensors\<close>, \<^verbatim>\<open>batch_size\<close>, \<^verbatim>\<open>num_workers\<close>,
  \<^verbatim>\<open>ignore_index\<close>, \<^verbatim>\<open>reduce_zero_label\<close>, \<^verbatim>\<open>train_loader_cfg\<close>, \<^verbatim>\<open>dl_impl\<close> and
  \<^verbatim>\<open>eval_cfg\<close> as lines 422-564 leave them. The result is \<open>None\<close> when \<open>validate\<close> is
  false, and the registered hook otherwise.
\<close>

definition register_eval_hooks ::
  "'op externals \<Rightarrow> bool \<Rightarrow> pyval \<Rightarrow> dataset option \<Rightarrow> pyval \<Rightarrow> bool \<Rightarrow> pyval \<Rightarrow> pyval \<Rightarrow> pyval \<Rightarrow>
     pyval \<Rightarrow> pyval \<Rightarrow> pydict \<Rightarrow> string \<Rightarrow> pyval \<Rightarrow> 'op eval_hook option outcome" where
  "register_eval_hooks ext validate cfg ds_val0 ds_val_tensors0 distributed ds_train_tensors
       batch_size num_workers ignore_index reduce_zero_label train_loader_cfg dl_impl eval_cfg0 =
     (if \<not> validate then returns None
      else
        and_then (pure (py_attr cfg ''gpu_ids'')) (\<lambda>gpu_ids.
        and_then (pure (py_len gpu_ids)) (\<lambda>num_gpus.
        let val_dataloader_default_args =
              [(''samples_per_gpu'', batch_size),
               (''workers_per_gpu'', num_workers),
               (''dist'', PBool distributed),
               (''shuffle'', PBool False),
               (''mode'', PStr ''val''),
               (''num_gpus'', PInt (int num_gpus)),
               (''ignore_index'', ignore_index),
               (''reduce_zero_label'', reduce_zero_label)]
        in
        and_then (pure (py_attr cfg ''data'')) (\<lambda>data.
        and_then (pure (py_attr data ''val'')) (\<lambda>val.
        and_then (pure (py_get val ''deeplake_dataloader'' (PDict []))) (\<lambda>user_args.
        and_then (pure (py_mapping user_args)) (\<lambda>user_dict.
        let val_dataloader_args = dict_merge user_dict val_dataloader_default_args;
            train_persistent_workers =
              dict_get train_loader_cfg ''persistent_workers'' (PBool False);
            val_persistent_workers =
              dict_get val_dataloader_args ''persistent_workers'' (PBool False)
        in
        and_then (pure (lift_ext (x_check_persistent_workers ext train_persistent_workers
                                    val_persistent_workers))) (\<lambda>_.
        and_then (if py_truthy (dict_get val_dataloader_args ''shuffle'' (PBool False))
                  then always_warn shuffle_ignored else returns ()) (\<lambda>_.
        and_then (validation_dataset ext cfg ds_val0 ds_val_tensors0) (\<lambda>(ds_val, ds_val_tensors).
        and_then (validation_tensors ext cfg ds_val ds_val_tensors ds_train_tensors)
          (\<lambda>(val_images_tensor, val_masks_tensor).
        and_then (pure (py_get cfg ''test_pipeline'' (PList []))) (\<lambda>test_pipeline.
        and_then (call_build_dataloader (x_build_from_cfg ext) ds_val val_images_tensor
                    val_masks_tensor test_pipeline dl_impl val_dataloader_args)
          (\<lambda>(val_dataloader, ds_val').
        and_then (pure (py_attr cfg ''runner'')) (\<lambda>runner_cfg.
        and_then (pure (py_item runner_cfg ''type'')) (\<lambda>runner_type.
        and_then (pure (case eval_cfg0 of
                          PDict d \<Rightarrow> Inr d
                        | _ \<Rightarrow> Inl (TypeError ''object does not support item assignment'')))
          (\<lambda>eval_dict.
        let eval_cfg =
              dict_set
                (dict_set eval_dict ''by_epoch''
                   (PBool (runner_type \<noteq> PStr ''DeeplakeIterBasedRunner'')))
                ''pre_eval'' (PBool False)
        in
        and_then (pure (lift_ext (x_register_eval_hook ext distributed eval_cfg))) (\<lambda>_.
          returns (Some \<lparr>eh_dataloader = val_dataloader, eh_dataset = ds_val',
                          eh_distributed = distributed, eh_eval_cfg = eval_cfg\<rparr>)
        )))))))))))))))))"

subsection \<open>The configuration and the training dataset, lines 422-450\<close>

text \<open>
  The local variables of \<^verbatim>\<open>_train_segmentor\<close> after line 438. \<open>ds_train0\<close> and
  \<open>ds_train_tensors0\<close> are the arguments \<^verbatim>\<open>ds_train\<close> and \<^verbatim>\<open>ds_train_tensors\<close>.
\<close>

record train_locals =
  tl_batch_size :: pyval
  tl_num_workers :: pyval
  tl_ignore_index :: pyval
  tl_reduce_zero_label :: pyval
  tl_ds_train :: "dataset option"
  tl_ds_train_tensors :: pyval
  tl_eval_cfg :: pyval

text \<open>
  Lines 422-438:
  \<^verbatim>\<open>
  batch_size = cfg.data.get("samples_per_gpu", 256)
  num_workers = cfg.data.get("workers_per_gpu", 1)
  ignore_index = cfg.get("ignore_index", 255)
  reduce_zero_label = cfg.get("reduce_zero_label", False)
  if ds_train is None:
      ds_train = load_ds_from_cfg(cfg.data.train)
      ds_train_tensors = cfg.data.train.get("deeplake_tensors", {})
  else:
      cfg_data = cfg.data.train.get("deeplake_path")
      if cfg_data:
          always_warn(...)
  eval_cfg = cfg.get("evaluation", {})
  \<close>
\<close>

definition train_config ::
  "'op externals \<Rightarrow> pyval \<Rightarrow> dataset option \<Rightarrow> pyval \<Rightarrow> train_locals outcome" where
  "train_config ext cfg ds_train0 ds_train_tensors0 =
     and_then (pure (py_attr cfg ''data'')) (\<lambda>data.
     and_then (pure (py_get data ''samples_per_gpu'' (PInt 256))) (\<lambda>batch_size.
     and_then (pure (py_get data ''workers_per_gpu'' (PInt 1))) (\<lambda>num_workers.
     and_then (pure (py_get cfg ''ignore_index'' (PInt 255))) (\<lambda>ignore_index.
     and_then (pure (py_get cfg ''reduce_zero_label'' (PBool False))) (\<lambda>reduce_zero_label.
     and_then
       (case ds_train0 of
          None \<Rightarrow>
            and_then (pure (py_attr data ''train'')) (\<lambda>train.
            and_then (pure (lift_ext (x_load_ds_from_cfg ext train))) (\<lambda>ds_train.
            and_then (pure (py_get train ''deeplake_tensors'' (PDict []))) (\<lambda>ds_train_tensors.
              returns (ds_train, ds_train_tensors))))
        | Some ds \<Rightarrow>
            and_then (pure (py_attr data ''train'')) (\<lambda>train.
            and_then (pure (py_get train ''deeplake_path'' PNone)) (\<lambda>cfg_data.
            and_then (if py_truthy cfg_data then always_warn dataset_given_twice else returns ())
              (\<lambda>_. returns (Some ds, ds_train_tensors0)))))
       (\<lambda>(ds_train, ds_train_tensors).
     and_then (pure (py_get cfg ''evaluation'' (PDict []))) (\<lambda>eval_cfg.
       returns \<lparr>tl_batch_size = batch_size, tl_num_workers = num_workers,
                tl_ignore_index = ignore_index, tl_reduce_zero_label = reduce_zero_label,
                tl_ds_train = ds_train, tl_ds_train_tensors = ds_train_tensors,
                tl_eval_cfg = eval_cfg\<rparr>)))))))"

text \<open>
  Lines 422-450: the local variables, then the backend. The result is what
  \<^verbatim>\<open>_train_segmentor\<close> holds when it reaches line 452, or the exception raised before.
\<close>

definition train_segmentor_setup ::
  "'op externals \<Rightarrow> bool \<Rightarrow> pyval \<Rightarrow> dataset option \<Rightarrow> pyval \<Rightarrow>
     (train_locals \<times> string) outcome" where
  "train_segmentor_setup ext indra_available cfg ds_train0 ds_train_tensors0 =
     and_then (train_config ext cfg ds_train0 ds_train_tensors0) (\<lambda>locals.
     and_then (dataloader_type indra_available cfg) (\<lambda>dl_impl.
       returns (locals, dl_impl)))"

subsection \<open>Statements about outcomes\<close>

text \<open>Every warning of an outcome satisfies \<open>P\<close>; the value of a successful outcome satisfies \<open>Q\<close>.\<close>

definition warns_only :: "(string \<Rightarrow> bool) \<Rightarrow> 'a outcome \<Rightarrow> bool" where
  "warns_only P m \<longleftrightarrow> (\<forall>w \<in> set (snd m). P w)"

definition ensures :: "('a \<Rightarrow> bool) \<Rightarrow> 'a outcome \<Rightarrow> bool" where
  "ensures Q m \<longleftrightarrow> (\<forall>v. fst m = Inr v \<longrightarrow> Q v)"

subsection \<open>An example run\<close>

text \<open>
  Collaborators that succeed (only loading a dataset from the configuration fails), a
  dataset with an images tensor and a masks tensor, a configuration whose validation section
  asks for shuffling, and the same configuration without a validation section.
\<close>

definition example_externals :: "pyval externals" where
  "example_externals =
     \<lparr>x_build_from_cfg = (\<lambda>step. Inr step),
      x_load_ds_from_cfg = (\<lambda>c. Inl ''DatasetHandlerError''),
      x_find_tensor_with_htype = (\<lambda>ds htype mm_class. Inr PNone),
      x_get_collect_keys = (\<lambda>c. Inr []),
      x_check_persistent_workers = (\<lambda>t v. Inr ()),
      x_register_eval_hook = (\<lambda>dist eval_cfg. Inr ())\<rparr>"

definition example_dataset :: dataset where
  "example_dataset =
     \<lparr>ds_tensors =
        [(''images'', \<lparr>t_htype = ''image'', t_class_names = []\<rparr>),
         (''masks'', \<lparr>t_htype = ''segment_mask'', t_class_names = [''background'', ''road'']\<rparr>)],
      ds_CLASSES = None\<rparr>"

definition example_cfg :: pyval where
  "example_cfg =
     PDict [(''gpu_ids'', PList [PInt 0]),
            (''data'',
               PDict [(''train'', PDict [(''deeplake_path'', PStr ''hub://org/train'')]),
                      (''val'', PDict [(''deeplake_dataloader'',
                                          PDict [(''shuffle'', PBool True)])])]),
            (''runner'', PDict [(''type'', PStr ''DeeplakeEpochBasedRunner'')])]"

definition example_cfg_without_val :: pyval where
  "example_cfg_without_val =
     PDict [(''gpu_ids'', PList [PInt 0]),
            (''data'',
               PDict [(''train'', PDict [(''deeplake_path'', PStr ''hub://org/train'')])]),
            (''runner'', PDict [(''type'', PStr ''DeeplakeEpochBasedRunner'')])]"

text \<open>
  For \<^verbatim>\<open>evaluate\<close>: numbers are integers, the mean is the integer mean and rounding
  changes nothing; \<^verbatim>\<open>eval_metrics\<close> returns fixed metrics of two classes, and
  \<^verbatim>\<open>pre_eval_to_metrics\<close> returns, as the \<^verbatim>\<open>IoU\<close> of the classes, the results it was
  given, in the order it was given them.
\<close>

definition example_ops :: "int float_ops" where
  "example_ops =
     \<lparr>np_nanmean = (\<lambda>v. case v of NpScalar x \<Rightarrow> x
                              | NpArray xs \<Rightarrow> sum_list xs div int (length xs)),
      np_times100 = (\<lambda>x. x * 100),
      np_round2 = (\<lambda>x. x),
      np_div100 = (\<lambda>x. x div 100),
      print_tables = (\<lambda>per_class class_names summary. Inr ())\<rparr>"

definition example_eval_env :: "(nat, int, unit, int) eval_env" where
  "example_eval_env =
     \<lparr>eval_metrics = (\<lambda>results gt num_classes ignore_index metric reduce_zero_label.
         Inr [(''aAcc'', NpScalar 7), (''IoU'', NpArray [1, 3]), (''Acc'', NpArray [5, 9])]),
      pre_eval_to_metrics = (\<lambda>results metric.
         Inr [(''IoU'', NpArray (map (\<lambda>r. case r of ResPreEval p \<Rightarrow> p | _ \<Rightarrow> 0) results))]),
      get_gt_seg_maps = (),
      numpy = example_ops\<rparr>"

definition example_self :: "int \<Rightarrow> string list \<Rightarrow> mmseg_dataset" where
  "example_self num_gpus classes =
     \<lparr>md_num_gpus = num_gpus, md_ignore_index = 255, md_reduce_zero_label = False,
      md_CLASSES = Some classes\<rparr>"

subsection \<open>Index lists of the strided slices\<close>

definition stride_row :: "nat \<Rightarrow> nat \<Rightarrow> nat \<Rightarrow> nat list" where
  "stride_row len n i = map (\<lambda>k. i + k * n) [0 ..< (len - i + n - 1) div n]"

definition stride_indices :: "nat \<Rightarrow> nat \<Rightarrow> nat list" where
  "stride_indices len n = concat (map (stride_row len n) [0 ..< n])"

section \<open>Properties of the result reordering\<close>

lemma fold_append_concat:
  "fold (\<lambda>i acc. acc @ f i) is acc0 = acc0 @ concat (map f is)"
  by (induction "is" arbitrary: acc0) auto

lemma stride_count:
  fixes k :: nat
  assumes "0 < n"
  shows "k < (len - i + n - 1) div n \<longleftrightarrow> i + k * n < len"
proof -
  have "k < (len - i + n - 1) div n \<longleftrightarrow> Suc k \<le> (len - i + n - 1) div n" by auto
  also have "\<dots> \<longleftrightarrow> Suc k * n \<le> len - i + n - 1"
    using assms by (simp add: less_eq_div_iff_mult_less_eq)
  also have "\<dots> \<longleftrightarrow> i + k * n < len" using assms by auto
  finally show ?thesis .
qed

lemma in_stride_row:
  assumes "0 < n"
  shows "j \<in> set (stride_row len n i) \<longleftrightarrow> (\<exists>k. i + k * n < len \<and> j = i + k * n)"
proof -
  have "j \<in> set (stride_row len n i) \<longleftrightarrow> (\<exists>k. k < (len - i + n - 1) div n \<and> j = i + k * n)"
    unfolding stride_row_def by (simp add: image_iff Bex_def conj_commute)
  then show ?thesis by (simp only: stride_count[OF assms])
qed

lemma in_stride_indices:
  "j \<in> set (stride_indices len n) \<longleftrightarrow> (\<exists>i<n. j \<in> set (stride_row len n i))"
  unfolding stride_indices_def by (simp add: Bex_def)

lemma set_stride_indices:
  assumes "0 < n"
  shows "set (stride_indices len n) = {0 ..< len}"
proof (intro equalityI subsetI)
  fix j assume "j \<in> set (stride_indices len n)"
  then obtain i k where "i + k * n < len" "j = i + k * n"
    unfolding in_stride_indices in_stride_row[OF assms] by blast
  then show "j \<in> {0 ..< len}" by simp
next
  fix j assume "j \<in> {0 ..< len}"
  then have "j mod n + (j div n) * n < len \<and> j = j mod n + (j div n) * n" by simp
  then have "j \<in> set (stride_row len n (j mod n))"
    unfolding in_stride_row[OF assms] by (rule exI[where x = "j div n"])
  moreover have "j mod n < n" using assms by simp
  ultimately show "j \<in> set (stride_indices len n)"
    unfolding in_stride_indices by blast
qed

lemma stride_row_mod: "i < n \<Longrightarrow> j \<in> set (stride_row len n i) \<Longrightarrow> j mod n = i"
  unfolding stride_row_def by (auto simp: image_iff)

lemma distinct_stride_row: "0 < n \<Longrightarrow> distinct (stride_row len n i)"
  by (simp add: stride_row_def distinct_map inj_on_def)

lemma stride_row_inj:
  assumes "i < n" "i' < n" "stride_row len n i = stride_row len n i'" "stride_row len n i \<noteq> []"
  shows "i = i'"
proof -
  from assms(4) have h: "hd (stride_row len n i) \<in> set (stride_row len n i)" by (rule hd_in_set)
  then have "hd (stride_row len n i) mod n = i" by (rule stride_row_mod[OF assms(1)])
  moreover from h have "hd (stride_row len n i) mod n = i'"
    unfolding assms(3) by (rule stride_row_mod[OF assms(2)])
  ultimately show ?thesis by simp
qed

lemma distinct_stride_rows:
  "distinct (removeAll [] (map (stride_row len n) [0..<n]))"
proof -
  have "inj_on (stride_row len n) (set (filter (\<lambda>i. stride_row len n i \<noteq> []) [0..<n]))"
  proof (rule inj_onI)
    fix i i'
    assume "i \<in> set (filter (\<lambda>i. stride_row len n i \<noteq> []) [0..<n])"
       and "i' \<in> set (filter (\<lambda>i. stride_row len n i \<noteq> []) [0..<n])"
       and eq: "stride_row len n i = stride_row len n i'"
    then have "i < n" "i' < n" "stride_row len n i \<noteq> []" by simp_all
    then show "i = i'" using eq by (intro stride_row_inj)
  qed
  moreover have "removeAll [] (map (stride_row len n) [0..<n])
      = map (stride_row len n) (filter (\<lambda>i. stride_row len n i \<noteq> []) [0..<n])"
  proof -
    have "(\<lambda>x. stride_row len n x \<noteq> []) = (\<lambda>x. [] \<noteq> stride_row len n x)"
      by (rule ext) (rule neq_commute)
    then show ?thesis by (simp only: removeAll_filter_not_eq filter_map o_def)
  qed
  ultimately show ?thesis by (simp only: distinct_map distinct_filter distinct_upt simp_thms)
qed

lemma stride_rows_disjoint:
  assumes "ys \<in> set (map (stride_row len n) [0..<n])"
    and "zs \<in> set (map (stride_row len n) [0..<n])" and "ys \<noteq> zs"
  shows "set ys \<inter> set zs = {}"
proof -
  from assms obtain i i' where i: "i < n" "ys = stride_row len n i"
    and i': "i' < n" "zs = stride_row len n i'"
    by auto
  with \<open>ys \<noteq> zs\<close> have "i \<noteq> i'" by auto
  with stride_row_mod[OF i(1)] stride_row_mod[OF i'(1)] i(2) i'(2) show ?thesis by blast
qed

lemma distinct_stride_indices:
  assumes "0 < n"
  shows "distinct (stride_indices len n)"
proof -
  have "\<And>ys. ys \<in> set (map (stride_row len n) [0..<n]) \<Longrightarrow> distinct ys"
    using assms distinct_stride_row by auto
  then show ?thesis
    unfolding stride_indices_def distinct_concat_iff
    using distinct_stride_rows stride_rows_disjoint by blast
qed

lemma mset_stride_indices: "0 < n \<Longrightarrow> mset (stride_indices len n) = mset [0 ..< len]"
  by (rule iffD1[OF set_eq_iff_mset_eq_distinct])
     (simp_all add: distinct_stride_indices set_stride_indices)

lemma concat_slices_eq:
  "concat (map (\<lambda>i. py_slice_from_step xs i n) [0 ..< n])
     = map ((!) xs) (stride_indices (length xs) n)"
  by (simp add: py_slice_from_step_def stride_indices_def stride_row_def map_concat o_def)

lemma mset_concat_slices:
  assumes "0 < n"
  shows "mset (concat (map (\<lambda>i. py_slice_from_step xs i n) [0 ..< n])) = mset xs"
proof -
  have "mset (map ((!) xs) (stride_indices (length xs) n))
          = image_mset ((!) xs) (mset [0 ..< length xs])"
    using assms by (simp only: mset_stride_indices mset_map)
  also have "\<dots> = mset (map ((!) xs) [0 ..< length xs])" by (simp only: mset_map)
  also have "\<dots> = mset xs" by (simp only: map_nth)
  finally show ?thesis by (simp only: concat_slices_eq)
qed

lemma reorder_results_concat:
  "1 < n \<Longrightarrow> reorder_results n results
     = concat (map (\<lambda>i. py_slice_from_step results i (nat n)) [0 ..< nat n])"
  by (simp add: reorder_results_def fold_append_concat)

lemma reorder_results_idem_arg:
  "reorder_results 1 results = results"
  by (simp add: reorder_results_def)

lemma evaluate_on_reordered:
  "evaluate env self results metric gt
     = evaluate env (self\<lparr>md_num_gpus := 1\<rparr>) (reorder_results (md_num_gpus self) results) metric gt"
  by (simp add: evaluate_def compute_metrics_def Let_def reorder_results_idem_arg
        cong: option.case_cong sum.case_cong if_cong)

lemma evaluate_metrics_of_reordered:
  assumes "1 < md_num_gpus self" and "set (metric_list metric) \<subseteq> set allowed_metrics"
    and "md_CLASSES self = Some class_names"
  shows "evaluate env self results metric gt =
     (let reordered =
            concat (map (\<lambda>i. py_slice_from_step results i (nat (md_num_gpus self)))
                      [0 ..< nat (md_num_gpus self)])
      in case (if is_list_of_ndarray reordered \<or> is_list_of_str reordered
               then lift_ext (eval_metrics env reordered
                      (case gt of None \<Rightarrow> get_gt_seg_maps env | Some g \<Rightarrow> g)
                      (length class_names) (md_ignore_index self) (metric_list metric)
                      (md_reduce_zero_label self))
               else lift_ext (pre_eval_to_metrics env reordered (metric_list metric))) of
           Inl e \<Rightarrow> Inl e
         | Inr ret_metrics \<Rightarrow> format_results (numpy env) ret_metrics class_names)"
  using assms
  by (simp add: evaluate_def compute_metrics_def Let_def reorder_results_concat
        cong: option.case_cong sum.case_cong if_cong)

text \<open>
  C8. For every results list and every \<open>num_gpus > 1\<close>, \<open>evaluate\<close> replaces the results
  by the concatenation of the strided slices \<open>results[0::num_gpus]\<close>, \<dots>,
  \<open>results[num_gpus-1::num_gpus]\<close>, and computes everything else from the reordered list
  (the call equals the call on one GPU with the reordered list); the reordered list has
  the multiset of elements and the length of the input; with \<open>num_gpus = 1\<close> the results
  are used in their original order. The metric functions receive the reordered list: a
  call with \<open>num_gpus > 1\<close>, supported metric names and class names is the formatting of
  lines 259-311 applied to what \<open>eval_metrics\<close> (results that are arrays or file names) or
  \<open>pre_eval_to_metrics\<close> (other results) returns on the concatenation of the slices.
\<close>

theorem evaluate_reorders_results:
  "(1 < n \<longrightarrow>
      reorder_results n results
        = concat (map (\<lambda>i. py_slice_from_step results i (nat n)) [0 ..< nat n])
      \<and> mset (reorder_results n results) = mset results
      \<and> length (reorder_results n results) = length results)
   \<and> reorder_results 1 results = results
   \<and> evaluate env self results metric gt
       = evaluate env (self\<lparr>md_num_gpus := 1\<rparr>)
           (reorder_results (md_num_gpus self) results) metric gt
   \<and> (1 < md_num_gpus self \<and> set (metric_list metric) \<subseteq> set allowed_metrics
        \<and> md_CLASSES self = Some class_names \<longrightarrow>
      evaluate env self results metric gt =
        (let reordered =
               concat (map (\<lambda>i. py_slice_from_step results i (nat (md_num_gpus self)))
                         [0 ..< nat (md_num_gpus self)])
         in case (if is_list_of_ndarray reordered \<or> is_list_of_str reordered
                  then lift_ext (eval_metrics env reordered
                         (case gt of None \<Rightarrow> get_gt_seg_maps env | Some g \<Rightarrow> g)
                         (length class_names) (md_ignore_index self) (metric_list metric)
                         (md_reduce_zero_label self))
                  else lift_ext (pre_eval_to_metrics env reordered (metric_list metric))) of
              Inl e \<Rightarrow> Inl e
            | Inr ret_metrics \<Rightarrow> format_results (numpy env) ret_metrics class_names))"
proof (intro conjI impI; (elim conjE)?)
  assume n: "1 < n"
  then have pos: "0 < nat n" by simp
  show eq: "reorder_results n results
      = concat (map (\<lambda>i. py_slice_from_step results i (nat n)) [0 ..< nat n])"
    using n by (rule reorder_results_concat)
  show m: "mset (reorder_results n results) = mset results"
    unfolding eq using pos by (rule mset_concat_slices)
  show "length (reorder_results n results) = length results"
    using m by (rule mset_eq_length)
next
  show "reorder_results 1 results = results" by (rule reorder_results_idem_arg)
next
  show "evaluate env self results metric gt
       = evaluate env (self\<lparr>md_num_gpus := 1\<rparr>)
           (reorder_results (md_num_gpus self) results) metric gt"
    by (rule evaluate_on_reordered)
next
  assume "1 < md_num_gpus self" and "set (metric_list metric) \<subseteq> set allowed_metrics"
    and "md_CLASSES self = Some class_names"
  then show "evaluate env self results metric gt =
        (let reordered =
               concat (map (\<lambda>i. py_slice_from_step results i (nat (md_num_gpus self)))
                         [0 ..< nat (md_num_gpus self)])
         in case (if is_list_of_ndarray reordered \<or> is_list_of_str reordered
                  then lift_ext (eval_metrics env reordered
                         (case gt of None \<Rightarrow> get_gt_seg_maps env | Some g \<Rightarrow> g)
                         (length class_names) (md_ignore_index self) (metric_list metric)
                         (md_reduce_zero_label self))
                  else lift_ext (pre_eval_to_metrics env reordered (metric_list metric))) of
              Inl e \<Rightarrow> Inl e
            | Inr ret_metrics \<Rightarrow> format_results (numpy env) ret_metrics class_names)"
    by (rule evaluate_metrics_of_reordered)
qed

theorem evaluate_reorders_results_witness:
  "(1::int) < 2
   \<and> reorder_results 2
         [ResPreEval 10, ResPreEval 11, ResPreEval 12, ResPreEval 13, ResPreEval 14
            :: (nat, int) eval_result]
       = [ResPreEval 10, ResPreEval 12, ResPreEval 14, ResPreEval 11, ResPreEval 13]
   \<and> mset (reorder_results 2
         [ResPreEval 10, ResPreEval 11, ResPreEval 12, ResPreEval 13, ResPreEval 14
            :: (nat, int) eval_result])
       = mset [ResPreEval 10, ResPreEval 11, ResPreEval 12, ResPreEval 13, ResPreEval 14]
   \<and> length (reorder_results 2
         [ResPreEval 10, ResPreEval 11, ResPreEval 12, ResPreEval 13, ResPreEval 14
            :: (nat, int) eval_result])
       = 5
   \<and> 1 < md_num_gpus (example_self 2 [''a'', ''b'', ''c'', ''d'', ''e''])
   \<and> set (metric_list (MetricStr ''mIoU'')) \<subseteq> set allowed_metrics
   \<and> md_CLASSES (example_self 2 [''a'', ''b'', ''c'', ''d'', ''e''])
       = Some [''a'', ''b'', ''c'', ''d'', ''e'']
   \<and> evaluate example_eval_env (example_self 2 [''a'', ''b'', ''c'', ''d'', ''e''])
         [ResPreEval 10, ResPreEval 11, ResPreEval 12, ResPreEval 13, ResPreEval 14]
         (MetricStr ''mIoU'') None
       = Inr [(''mIoU'', 12), (''IoU.a'', 10), (''IoU.b'', 12), (''IoU.c'', 14),
              (''IoU.d'', 11), (''IoU.e'', 13)]"
proof -
  let ?results = "[ResPreEval 10, ResPreEval 11, ResPreEval 12, ResPreEval 13, ResPreEval 14
                     :: (nat, int) eval_result]"
  let ?self = "example_self 2 [''a'', ''b'', ''c'', ''d'', ''e'']"
  have slices: "concat (map (\<lambda>i. py_slice_from_step ?results i (nat 2)) [0 ..< nat 2])
      = [ResPreEval 10, ResPreEval 12, ResPreEval 14, ResPreEval 11, ResPreEval 13]"
    by code_simp
  have gpus: "md_num_gpus ?self = 2" by (simp add: example_self_def)
  have classes: "md_CLASSES ?self = Some [''a'', ''b'', ''c'', ''d'', ''e'']"
    by (simp add: example_self_def)
  have names: "set (metric_list (MetricStr ''mIoU'')) \<subseteq> set allowed_metrics"
    by (simp add: metric_list_def allowed_metrics_def)
  note t = evaluate_reorders_results[of 2 ?results example_eval_env ?self "MetricStr ''mIoU''"
             None "[''a'', ''b'', ''c'', ''d'', ''e'']"]
  have perm: "reorder_results 2 ?results
         = [ResPreEval 10, ResPreEval 12, ResPreEval 14, ResPreEval 11, ResPreEval 13]
       \<and> mset (reorder_results 2 ?results) = mset ?results
       \<and> length (reorder_results 2 ?results) = 5"
    using t[THEN conjunct1] slices by simp
  have "evaluate example_eval_env ?self ?results (MetricStr ''mIoU'') None
       = Inr [(''mIoU'', 12), (''IoU.a'', 10), (''IoU.b'', 12), (''IoU.c'', 14),
              (''IoU.d'', 11), (''IoU.e'', 13)]"
    using t[THEN conjunct2, THEN conjunct2, THEN conjunct2] names classes slices
    by (simp add: gpus Let_def is_list_of_ndarray_def is_list_of_str_def lift_ext_def
          example_eval_env_def example_ops_def metric_list_def format_results_def
          metrics_summary_def metrics_class_def od_update_def summary_key_def np_index_def)
  with perm gpus names classes show ?thesis by simp
qed

section \<open>The metric names accepted by evaluate\<close>

lemma lift_ext_Inl: "lift_ext r = Inl e \<Longrightarrow> \<exists>s. e = ExternalError s"
  by (auto simp: lift_ext_def split: sum.splits)

lemma evaluate_rejects:
  "\<not> set (metric_list metric) \<subseteq> set allowed_metrics \<Longrightarrow>
     evaluate env self results metric gt = Inl (MetricKeyError (metric_list metric))"
  by (simp add: evaluate_def Let_def)

lemma compute_metrics_Inl:
  "compute_metrics env self results metric gt = Inl e \<Longrightarrow> e \<noteq> MetricKeyError m"
  by (auto simp: compute_metrics_def Let_def split: option.splits if_splits
           dest!: lift_ext_Inl)

lemma class_entries_Inl:
  "class_entries d key v idx names = Inl e \<Longrightarrow> \<exists>s. e = IndexError s"
  by (induction names arbitrary: idx)
     (auto simp: np_index_def split: sum.splits npvalue.splits if_splits)

lemma update_classes_Inl:
  "update_classes d cn ms er = Inl e \<Longrightarrow> \<exists>s. e = IndexError s"
  by (induction ms arbitrary: er)
     (auto split: sum.splits dest: class_entries_Inl)

lemma format_results_Inl:
  "format_results ops ret_metrics cn = Inl e \<Longrightarrow> e \<noteq> MetricKeyError m"
  by (auto simp: format_results_def Let_def split: sum.splits
           dest!: lift_ext_Inl update_classes_Inl)

lemma evaluate_accepts:
  assumes "set (metric_list metric) \<subseteq> set allowed_metrics"
  shows "evaluate env self results metric gt \<noteq> Inl (MetricKeyError m)"
  using assms
  by (auto simp: evaluate_def Let_def split: sum.splits option.splits if_splits
           dest: compute_metrics_Inl format_results_Inl)

text \<open>
  C3. For every call of \<open>evaluate\<close>: when the requested metric (one name or a list of
  names) holds a name outside \<open>mIoU\<close>, \<open>mDice\<close>, \<open>mFscore\<close>, the call raises the
  \<open>KeyError\<close> "metric ... is not supported", whatever the metric functions of the
  environment are (it is raised before any of them is called); when every requested name
  is in that set, this error is not raised.
\<close>

theorem evaluate_unsupported_metric:
  "(\<not> set (metric_list metric) \<subseteq> {''mIoU'', ''mDice'', ''mFscore''} \<longrightarrow>
      (\<forall>env. evaluate env self results metric gt = Inl (MetricKeyError (metric_list metric))))
   \<and> (set (metric_list metric) \<subseteq> {''mIoU'', ''mDice'', ''mFscore''} \<longrightarrow>
      (\<forall>env m. evaluate env self results metric gt \<noteq> Inl (MetricKeyError m)))"
proof -
  have allowed: "set allowed_metrics = {''mIoU'', ''mDice'', ''mFscore''}"
    by (simp add: allowed_metrics_def)
  show ?thesis
    unfolding allowed[symmetric] using evaluate_rejects evaluate_accepts by blast
qed

theorem evaluate_unsupported_metric_witness:
  "\<not> set (metric_list (MetricList [''mIoU'', ''accuracy''])) \<subseteq> {''mIoU'', ''mDice'', ''mFscore''}
   \<and> evaluate
        example_eval_env
        \<lparr>md_num_gpus = 1, md_ignore_index = 255, md_reduce_zero_label = False,
          md_CLASSES = Some [''background'']\<rparr>
        ([] :: (nat, int) eval_result list) (MetricList [''mIoU'', ''accuracy'']) None
      = Inl (MetricKeyError [''mIoU'', ''accuracy''])
   \<and> set (metric_list (MetricStr ''mDice'')) \<subseteq> {''mIoU'', ''mDice'', ''mFscore''}
   \<and> evaluate
        example_eval_env
        \<lparr>md_num_gpus = 1, md_ignore_index = 255, md_reduce_zero_label = False,
          md_CLASSES = Some [''background'']\<rparr>
        ([] :: (nat, int) eval_result list) (MetricStr ''mDice'') None
      \<noteq> Inl (MetricKeyError [''mDice''])"
proof -
  have bad: "\<not> set (metric_list (MetricList [''mIoU'', ''accuracy''])) \<subseteq> {''mIoU'', ''mDice'', ''mFscore''}"
    by (simp add: metric_list_def)
  have good: "set (metric_list (MetricStr ''mDice'')) \<subseteq> {''mIoU'', ''mDice'', ''mFscore''}"
    by (simp add: metric_list_def)
  have names: "metric_list (MetricList [''mIoU'', ''accuracy'']) = [''mIoU'', ''accuracy'']"
    by (simp add: metric_list_def)
  show ?thesis
    using bad good
      evaluate_unsupported_metric[of "MetricList [''mIoU'', ''accuracy'']"
        "\<lparr>md_num_gpus = 1, md_ignore_index = 255, md_reduce_zero_label = False,
          md_CLASSES = Some [''background'']\<rparr>" "[] :: (nat, int) eval_result list" None]
      evaluate_unsupported_metric[of "MetricStr ''mDice''"
        "\<lparr>md_num_gpus = 1, md_ignore_index = 255, md_reduce_zero_label = False,
          md_CLASSES = Some [''background'']\<rparr>" "[] :: (nat, int) eval_result list" None]
    unfolding names by blast
qed

section \<open>The dictionary returned by evaluate\<close>

lemma map_of_od_set: "map_of (od_set d k v) = (map_of d)(k \<mapsto> v)"
  by (induction d k v rule: od_set.induct) (auto simp: fun_eq_iff)

lemma map_of_od_update:
  "map_of (od_update d entries) = map_of d ++ map_of (rev entries)"
  unfolding od_update_def
proof (induction entries arbitrary: d)
  case Nil
  then show ?case by simp
next
  case (Cons kv entries)
  obtain k v where kv: "kv = (k, v)" by (cases kv)
  show ?case
    by (simp add: kv Cons map_of_od_set map_add_def fun_eq_iff split: option.splits)
qed

lemma od_update_append: "od_update d (xs @ ys) = od_update (od_update d xs) ys"
  by (simp add: od_update_def)

lemma class_entries_Inr:
  "class_entries d key v idx names = Inr es \<Longrightarrow>
     length es = length names
     \<and> (\<forall>j<length names. \<exists>x. np_index v (idx + j) = Inr x
            \<and> es ! j = (key @ ''.'' @ names ! j, d x))"
proof (induction names arbitrary: idx es)
  case Nil
  then show ?case by simp
next
  case (Cons name names)
  from Cons.prems obtain x rest where x: "np_index v idx = Inr x"
    and rest: "class_entries d key v (Suc idx) names = Inr rest"
    and es: "es = (key @ ''.'' @ name, d x) # rest"
    by (auto split: sum.splits)
  from Cons.IH[OF rest] have len: "length rest = length names"
    and items: "\<forall>j<length names. \<exists>y. np_index v (Suc idx + j) = Inr y
            \<and> rest ! j = (key @ ''.'' @ names ! j, d y)"
    by simp_all
  show ?case
  proof (intro conjI allI impI)
    show "length es = length (name # names)" using es len by simp
  next
    fix j assume j: "j < length (name # names)"
    show "\<exists>y. np_index v (idx + j) = Inr y
            \<and> es ! j = (key @ ''.'' @ (name # names) ! j, d y)"
    proof (cases j)
      case 0
      then show ?thesis using x es by simp
    next
      case (Suc j')
      with j have "j' < length names" by simp
      with items obtain y where "np_index v (Suc idx + j') = Inr y"
        "rest ! j' = (key @ ''.'' @ names ! j', d y)" by blast
      then show ?thesis using Suc es by simp
    qed
  qed
qed

lemma update_classes_Inr:
  "update_classes d cn ms er = Inr r \<Longrightarrow>
     \<exists>ess. length ess = length ms
       \<and> (\<forall>m<length ms. class_entries d (fst (ms ! m)) (snd (ms ! m)) 0 cn = Inr (ess ! m))
       \<and> r = od_update er (concat ess)"
proof (induction ms arbitrary: er)
  case Nil
  then show ?case by (simp add: od_update_def)
next
  case (Cons kv ms)
  obtain key v where kv: "kv = (key, v)" by (cases kv)
  from Cons.prems obtain es where es: "class_entries d key v 0 cn = Inr es"
    and rest: "update_classes d cn ms (od_update er es) = Inr r"
    by (auto simp: kv split: sum.splits)
  from Cons.IH[OF rest] obtain ess where ess: "length ess = length ms"
    "\<forall>m<length ms. class_entries d (fst (ms ! m)) (snd (ms ! m)) 0 cn = Inr (ess ! m)"
    "r = od_update (od_update er es) (concat ess)"
    by blast
  have "\<forall>m<length (kv # ms).
          class_entries d (fst ((kv # ms) ! m)) (snd ((kv # ms) ! m)) 0 cn = Inr ((es # ess) ! m)"
  proof (intro allI impI)
    fix m assume "m < length (kv # ms)"
    then show "class_entries d (fst ((kv # ms) ! m)) (snd ((kv # ms) ! m)) 0 cn
                 = Inr ((es # ess) ! m)"
      using es ess(2) by (cases m) (simp_all add: kv)
  qed
  moreover have "length (es # ess) = length (kv # ms)" using ess(1) by simp
  moreover have "r = od_update er (concat (es # ess))"
    using ess(3) by (simp add: od_update_append)
  ultimately show ?case by blast
qed

text \<open>An entry of the class part: which metric and which class it comes from.\<close>

lemma update_classes_entries:
  assumes "update_classes d cn ms er = Inr r"
  shows "\<exists>entries. map_of r = map_of er ++ map_of (rev entries)
    \<and> (\<forall>K V. (K, V) \<in> set entries \<longleftrightarrow>
           (\<exists>key v j x. (key, v) \<in> set ms \<and> j < length cn \<and> K = key @ ''.'' @ cn ! j
              \<and> np_index v j = Inr x \<and> V = d x))
    \<and> (\<forall>key v j. (key, v) \<in> set ms \<longrightarrow> j < length cn \<longrightarrow> (\<exists>x. np_index v j = Inr x))"
proof -
  from update_classes_Inr[OF assms] obtain ess where len: "length ess = length ms"
    and ce: "\<forall>m<length ms. class_entries d (fst (ms ! m)) (snd (ms ! m)) 0 cn = Inr (ess ! m)"
    and r: "r = od_update er (concat ess)"
    by blast
  have item: "length (ess ! m) = length cn
      \<and> (\<forall>j<length cn. \<exists>x. np_index (snd (ms ! m)) j = Inr x
            \<and> ess ! m ! j = (fst (ms ! m) @ ''.'' @ cn ! j, d x))"
    if "m < length ms" for m
    using class_entries_Inr[of d "fst (ms ! m)" "snd (ms ! m)" 0 cn "ess ! m"] ce that by simp
  have 1: "map_of r = map_of er ++ map_of (rev (concat ess))"
    by (simp add: r map_of_od_update)
  have 2: "(K, V) \<in> set (concat ess) \<longleftrightarrow>
           (\<exists>key v j x. (key, v) \<in> set ms \<and> j < length cn \<and> K = key @ ''.'' @ cn ! j
              \<and> np_index v j = Inr x \<and> V = d x)" for K V
  proof
    assume "(K, V) \<in> set (concat ess)"
    then obtain es where "es \<in> set ess" "(K, V) \<in> set es" by auto
    then obtain m j where m: "m < length ess" "es = ess ! m" and j: "j < length es" "es ! j = (K, V)"
      by (metis in_set_conv_nth)
    from m len have m': "m < length ms" by simp
    from item[OF m'] j m obtain x where "np_index (snd (ms ! m)) j = Inr x"
      "(K, V) = (fst (ms ! m) @ ''.'' @ cn ! j, d x)" "j < length cn"
      by (metis)
    moreover have "(fst (ms ! m), snd (ms ! m)) \<in> set ms" using m' by simp
    ultimately show "\<exists>key v j x. (key, v) \<in> set ms \<and> j < length cn \<and> K = key @ ''.'' @ cn ! j
              \<and> np_index v j = Inr x \<and> V = d x"
      by blast
  next
    assume "\<exists>key v j x. (key, v) \<in> set ms \<and> j < length cn \<and> K = key @ ''.'' @ cn ! j
              \<and> np_index v j = Inr x \<and> V = d x"
    then obtain key v j x where kv: "(key, v) \<in> set ms" and j: "j < length cn"
      and K: "K = key @ ''.'' @ cn ! j" and x: "np_index v j = Inr x" and V: "V = d x"
      by blast
    from kv obtain m where m: "m < length ms" "ms ! m = (key, v)" by (metis in_set_conv_nth)
    from item[OF m(1)] j m(2) x have "length (ess ! m) = length cn"
      "ess ! m ! j = (key @ ''.'' @ cn ! j, d x)"
      by auto
    then have "(K, V) \<in> set (ess ! m)" using j K V by (metis nth_mem)
    moreover have "ess ! m \<in> set ess" using m(1) len by simp
    ultimately show "(K, V) \<in> set (concat ess)" by auto
  qed
  have 3: "\<exists>x. np_index v j = Inr x" if "(key, v) \<in> set ms" "j < length cn" for key v j
  proof -
    from that(1) obtain m where m: "m < length ms" "ms ! m = (key, v)" by (metis in_set_conv_nth)
    from item[OF m(1)] that(2) m(2) show ?thesis by auto
  qed
  from 1 2 3 show ?thesis by (intro exI[where x = "concat ess"] conjI allI impI)
qed

lemma dotted_key_eq:
  assumes "CHR ''.'' \<notin> set k" "CHR ''.'' \<notin> set k'" "k @ ''.'' @ n = k' @ ''.'' @ n'"
  shows "k = k' \<and> n = n'"
proof -
  have "takeWhile (\<lambda>c. c \<noteq> CHR ''.'') (k @ ''.'' @ n) = k"
    using assms(1) by (auto simp: takeWhile_tail)
  moreover have "takeWhile (\<lambda>c. c \<noteq> CHR ''.'') (k' @ ''.'' @ n') = k'"
    using assms(2) by (auto simp: takeWhile_tail)
  ultimately have "k = k'" using assms(3) by simp
  with assms(3) show ?thesis by simp
qed

lemma map_of_unique:
  assumes "(k, v) \<in> set xs" "\<And>v'. (k, v') \<in> set xs \<Longrightarrow> v' = v"
  shows "map_of xs k = Some v"
proof (cases "map_of xs k")
  case None
  then show ?thesis using assms(1) by (simp add: map_of_eq_None_iff image_iff) force
next
  case (Some v')
  then have "(k, v') \<in> set xs" by (rule map_of_SomeD)
  with assms(2) Some show ?thesis by simp
qed

lemma summary_key_inj: "summary_key k = summary_key k' \<Longrightarrow> k = k'"
  by (auto simp: summary_key_def split: if_splits)

lemma summary_key_no_dot: "CHR ''.'' \<notin> set k \<Longrightarrow> CHR ''.'' \<notin> set (summary_key k)"
  by (auto simp: summary_key_def)

lemma format_results_Inr:
  assumes "format_results ops ret_metrics cn = Inr eval_results"
  shows "update_classes (np_div100 ops) cn
           (filter (\<lambda>(k, v). k \<noteq> ''Class'')
              (metrics_class ops (filter (\<lambda>(k, v). k \<noteq> ''aAcc'') ret_metrics)))
           (od_update []
              (map (\<lambda>(key, value). (summary_key key, np_div100 ops value))
                 (metrics_summary ops ret_metrics)))
         = Inr eval_results"
  using assms
  by (simp add: format_results_def Let_def split: sum.splits)

lemma in_metrics_class:
  "(key, w) \<in> set (filter (\<lambda>(k, v). k \<noteq> ''Class'')
              (metrics_class ops (filter (\<lambda>(k, v). k \<noteq> ''aAcc'') ret_metrics)))
     \<longleftrightarrow> (\<exists>v. (key, v) \<in> set ret_metrics \<and> key \<noteq> ''aAcc'' \<and> key \<noteq> ''Class''
            \<and> w = np_map (\<lambda>x. np_round2 ops (np_times100 ops x)) v)"
  by (auto simp: metrics_class_def image_iff)

lemma summary_writes:
  "map (\<lambda>(key, value). (summary_key key, np_div100 ops value)) (metrics_summary ops ret_metrics)
     = map (\<lambda>kv. (summary_key (fst kv),
              np_div100 ops (np_round2 ops (np_times100 ops (np_nanmean ops (snd kv))))))
         ret_metrics"
  by (simp add: metrics_summary_def split_beta)

lemma distinct_summary_keys:
  assumes "distinct (map fst ret_metrics)"
  shows "distinct (map fst (map (\<lambda>kv. (summary_key (fst kv), f kv)) ret_metrics))"
proof -
  have "map fst (map (\<lambda>kv. (summary_key (fst kv), f kv)) ret_metrics)
          = map summary_key (map fst ret_metrics)"
    by simp
  moreover have "inj_on summary_key (set (map fst ret_metrics))"
    by (rule inj_onI) (rule summary_key_inj)
  ultimately show ?thesis using assms by (simp only: distinct_map simp_thms)
qed

lemma format_results_summary:
  assumes res: "format_results ops ret_metrics cn = Inr eval_results"
    and dist: "distinct (map fst ret_metrics)"
    and dots: "\<forall>k \<in> fst ` set ret_metrics. CHR ''.'' \<notin> set k"
    and kv: "(k, v) \<in> set ret_metrics"
  shows "map_of eval_results (summary_key k)
           = Some (np_div100 ops (np_round2 ops (np_times100 ops (np_nanmean ops v))))"
proof -
  let ?f = "\<lambda>kv. np_div100 ops (np_round2 ops (np_times100 ops (np_nanmean ops (snd kv))))"
  let ?S = "map (\<lambda>kv. (summary_key (fst kv), ?f kv)) ret_metrics"
  let ?ms = "filter (\<lambda>(k, v). k \<noteq> ''Class'')
              (metrics_class ops (filter (\<lambda>(k, v). k \<noteq> ''aAcc'') ret_metrics))"
  from format_results_Inr[OF res] have u: "update_classes (np_div100 ops) cn ?ms
      (od_update [] ?S) = Inr eval_results"
    by (simp only: summary_writes)
  from update_classes_entries[OF u] obtain entries where
    m: "map_of eval_results = map_of (od_update [] ?S) ++ map_of (rev entries)"
    and e: "\<forall>K V. (K, V) \<in> set entries \<longleftrightarrow>
           (\<exists>key v j x. (key, v) \<in> set ?ms \<and> j < length cn \<and> K = key @ ''.'' @ cn ! j
              \<and> np_index v j = Inr x \<and> V = np_div100 ops x)"
    by (elim exE conjE)
  have kdot: "CHR ''.'' \<notin> set k"
  proof -
    from kv have "k \<in> fst ` set ret_metrics" by (rule rev_image_eqI) simp
    with dots show ?thesis by (rule bspec)
  qed
  then have nodot: "CHR ''.'' \<notin> set (summary_key k)" by (rule summary_key_no_dot)
  have "summary_key k \<notin> fst ` set entries"
  proof
    assume "summary_key k \<in> fst ` set entries"
    then obtain V where "(summary_key k, V) \<in> set entries" by auto
    with e obtain key n where "summary_key k = key @ ''.'' @ n" by blast
    then have "CHR ''.'' \<in> set (summary_key k)" by simp
    with nodot show False by simp
  qed
  then have none: "map_of (rev entries) (summary_key k) = None"
    by (simp add: map_of_eq_None_iff)
  have dS: "distinct (map fst (rev ?S))"
    using distinct_summary_keys[OF dist, of ?f] by (simp only: distinct_rev rev_map[symmetric])
  have "(summary_key k, ?f (k, v)) \<in> set ?S"
  proof -
    have "(\<lambda>kv. (summary_key (fst kv), ?f kv)) (k, v) \<in> (\<lambda>kv. (summary_key (fst kv), ?f kv)) ` set ret_metrics"
      using kv by (rule imageI)
    then show ?thesis by simp
  qed
  then have "(summary_key k, ?f (k, v)) \<in> set (rev ?S)" by simp
  with dS have "map_of (rev ?S) (summary_key k) = Some (?f (k, v))"
    by (rule map_of_is_SomeI)
  then have "map_of eval_results (summary_key k) = Some (?f (k, v))"
    using none by (simp add: m map_of_od_update map_add_def)
  then show ?thesis by simp
qed

lemma format_results_class:
  assumes res: "format_results ops ret_metrics cn = Inr eval_results"
    and dist: "distinct (map fst ret_metrics)"
    and dots: "\<forall>k \<in> fst ` set ret_metrics. CHR ''.'' \<notin> set k"
    and dcn: "distinct cn"
    and kv: "(k, v) \<in> set ret_metrics" "k \<noteq> ''aAcc''" "k \<noteq> ''Class''"
    and i: "i < length cn"
  shows "\<exists>xs. v = NpArray xs \<and> i < length xs
           \<and> map_of eval_results (k @ ''.'' @ cn ! i)
               = Some (np_div100 ops (np_round2 ops (np_times100 ops (xs ! i))))"
proof -
  let ?g = "\<lambda>x. np_round2 ops (np_times100 ops x)"
  let ?S = "map (\<lambda>(key, value). (summary_key key, np_div100 ops value))
              (metrics_summary ops ret_metrics)"
  let ?ms = "filter (\<lambda>(k, v). k \<noteq> ''Class'')
              (metrics_class ops (filter (\<lambda>(k, v). k \<noteq> ''aAcc'') ret_metrics))"
  from format_results_Inr[OF res] have u: "update_classes (np_div100 ops) cn ?ms
      (od_update [] ?S) = Inr eval_results" .
  from update_classes_entries[OF u] obtain entries where
    m: "map_of eval_results = map_of (od_update [] ?S) ++ map_of (rev entries)"
    and e: "\<forall>K V. (K, V) \<in> set entries \<longleftrightarrow>
           (\<exists>key v j x. (key, v) \<in> set ?ms \<and> j < length cn \<and> K = key @ ''.'' @ cn ! j
              \<and> np_index v j = Inr x \<and> V = np_div100 ops x)"
    and ok: "\<forall>key v j. (key, v) \<in> set ?ms \<longrightarrow> j < length cn \<longrightarrow> (\<exists>x. np_index v j = Inr x)"
    by (elim exE conjE)
  have uniq: "v' = v" if "(k, v') \<in> set ret_metrics" for v'
  proof -
    from dist that have "map_of ret_metrics k = Some v'" by (rule map_of_is_SomeI)
    moreover from dist kv(1) have "map_of ret_metrics k = Some v" by (rule map_of_is_SomeI)
    ultimately show ?thesis by simp
  qed
  have kms: "(k, np_map ?g v) \<in> set ?ms"
    unfolding in_metrics_class using kv by blast
  with ok i obtain x where x: "np_index (np_map ?g v) i = Inr x" by blast
  then obtain xs where xs: "v = NpArray xs" "i < length xs" "x = ?g (xs ! i)"
    by (cases v) (auto simp: np_index_def split: if_splits)
  have kdot: "CHR ''.'' \<notin> set k"
  proof -
    from kv(1) have "k \<in> fst ` set ret_metrics" by (rule rev_image_eqI) simp
    with dots show ?thesis by (rule bspec)
  qed
  have in_e: "(k @ ''.'' @ cn ! i, np_div100 ops x) \<in> set entries"
    using e kms i x by blast
  have only: "V = np_div100 ops x" if "(k @ ''.'' @ cn ! i, V) \<in> set entries" for V
  proof -
    from that e obtain key w j y where w: "(key, w) \<in> set ?ms" and j: "j < length cn"
      and K: "k @ ''.'' @ cn ! i = key @ ''.'' @ cn ! j"
      and y: "np_index w j = Inr y" and V: "V = np_div100 ops y"
      by blast
    from w obtain v' where v': "(key, v') \<in> set ret_metrics" "w = np_map ?g v'"
      unfolding in_metrics_class by blast
    from v'(1) have "key \<in> fst ` set ret_metrics" by (rule rev_image_eqI) simp
    with dots have "CHR ''.'' \<notin> set key" by (rule bspec)
    from dotted_key_eq[OF kdot this K] have kk: "k = key" and nn: "cn ! i = cn ! j" by simp_all
    from nn dcn i j have ij: "i = j" by (simp add: nth_eq_iff_index_eq)
    from kk v'(1) have "v' = v" by (intro uniq) simp
    with v'(2) y x ij have "y = x" by simp
    with V show ?thesis by simp
  qed
  have "(k @ ''.'' @ cn ! i, np_div100 ops x) \<in> set (rev entries)" using in_e by simp
  moreover have "\<And>V. (k @ ''.'' @ cn ! i, V) \<in> set (rev entries) \<Longrightarrow> V = np_div100 ops x"
    using only by simp
  ultimately have "map_of (rev entries) (k @ ''.'' @ cn ! i) = Some (np_div100 ops x)"
    by (rule map_of_unique)
  then have "map_of eval_results (k @ ''.'' @ cn ! i) = Some (np_div100 ops x)"
    by (simp add: m map_add_def)
  with xs show ?thesis by simp
qed

lemma evaluate_Inr:
  assumes "evaluate env self results metric gt = Inr eval_results"
  shows "\<exists>ret_metrics class_names.
           compute_metrics env self (reorder_results (md_num_gpus self) results)
               (metric_list metric) gt = Inr ret_metrics
           \<and> md_CLASSES self = Some class_names
           \<and> format_results (numpy env) ret_metrics class_names = Inr eval_results"
  using assms
  by (auto simp: evaluate_def Let_def split: if_splits sum.splits option.splits)

text \<open>
  C4 (amended). For every successful call of \<open>evaluate\<close> (the metric functions returning a
  dictionary of metrics, so distinct names, none of which contains a dot: those of
  \<^verbatim>\<open>mmseg\<close> are \<open>aAcc\<close>, \<open>IoU\<close>, \<open>Acc\<close>, \<open>Dice\<close>, \<open>Fscore\<close>, \<open>Precision\<close>, \<open>Recall\<close>): for
  every metric the metric functions returned, its summary entry, keyed \<open>aAcc\<close> for \<open>aAcc\<close>
  and \<open>m\<close> followed by the name otherwise, is the nan-mean of its values multiplied by
  100, rounded to two decimals, divided by 100; and when the class names are pairwise
  distinct, for every per-class metric and every class the entry keyed
  \<open>Metric.classname\<close> is that class's value multiplied by 100, rounded to two decimals,
  divided by 100. The four operations on floating-point numbers are parameters.
\<close>

theorem evaluate_result_entries:
  assumes "evaluate env self results metric gt = Inr eval_results"
  shows "\<exists>ret_metrics class_names.
     compute_metrics env self (reorder_results (md_num_gpus self) results)
         (metric_list metric) gt = Inr ret_metrics
     \<and> md_CLASSES self = Some class_names
     \<and> (distinct (map fst ret_metrics) \<and> (\<forall>k \<in> fst ` set ret_metrics. CHR ''.'' \<notin> set k) \<longrightarrow>
          (\<forall>k v. (k, v) \<in> set ret_metrics \<longrightarrow>
             map_of eval_results (if k = ''aAcc'' then ''aAcc'' else ''m'' @ k)
               = Some (np_div100 (numpy env) (np_round2 (numpy env)
                         (np_times100 (numpy env) (np_nanmean (numpy env) v)))))
          \<and> (distinct class_names \<longrightarrow>
               (\<forall>k v i. (k, v) \<in> set ret_metrics \<and> k \<noteq> ''aAcc'' \<and> k \<noteq> ''Class''
                          \<and> i < length class_names \<longrightarrow>
                  (\<exists>xs. v = NpArray xs \<and> i < length xs
                     \<and> map_of eval_results (k @ ''.'' @ class_names ! i)
                         = Some (np_div100 (numpy env) (np_round2 (numpy env)
                                   (np_times100 (numpy env) (xs ! i))))))))"
proof -
  from evaluate_Inr[OF assms] obtain ret_metrics class_names where
    c: "compute_metrics env self (reorder_results (md_num_gpus self) results)
          (metric_list metric) gt = Inr ret_metrics"
    and n: "md_CLASSES self = Some class_names"
    and f: "format_results (numpy env) ret_metrics class_names = Inr eval_results"
    by (elim exE conjE)
  have "distinct (map fst ret_metrics) \<and> (\<forall>k \<in> fst ` set ret_metrics. CHR ''.'' \<notin> set k) \<longrightarrow>
          (\<forall>k v. (k, v) \<in> set ret_metrics \<longrightarrow>
             map_of eval_results (if k = ''aAcc'' then ''aAcc'' else ''m'' @ k)
               = Some (np_div100 (numpy env) (np_round2 (numpy env)
                         (np_times100 (numpy env) (np_nanmean (numpy env) v)))))
          \<and> (distinct class_names \<longrightarrow>
               (\<forall>k v i. (k, v) \<in> set ret_metrics \<and> k \<noteq> ''aAcc'' \<and> k \<noteq> ''Class''
                          \<and> i < length class_names \<longrightarrow>
                  (\<exists>xs. v = NpArray xs \<and> i < length xs
                     \<and> map_of eval_results (k @ ''.'' @ class_names ! i)
                         = Some (np_div100 (numpy env) (np_round2 (numpy env)
                                   (np_times100 (numpy env) (xs ! i)))))))"
  proof (intro impI conjI allI; (elim conjE)?)
    fix k v
    assume d: "distinct (map fst ret_metrics)"
      and dots: "\<forall>k \<in> fst ` set ret_metrics. CHR ''.'' \<notin> set k"
      and kv: "(k, v) \<in> set ret_metrics"
    from format_results_summary[OF f d dots kv]
    show "map_of eval_results (if k = ''aAcc'' then ''aAcc'' else ''m'' @ k)
               = Some (np_div100 (numpy env) (np_round2 (numpy env)
                         (np_times100 (numpy env) (np_nanmean (numpy env) v))))"
      by (cases "k = ''aAcc''") (simp_all add: summary_key_def)
  next
    fix k v i
    assume d: "distinct (map fst ret_metrics)"
      and dots: "\<forall>k \<in> fst ` set ret_metrics. CHR ''.'' \<notin> set k"
      and dcn: "distinct class_names"
      and kv: "(k, v) \<in> set ret_metrics" "k \<noteq> ''aAcc''" "k \<noteq> ''Class''"
      and i: "i < length class_names"
    from format_results_class[OF f d dots dcn kv i]
    show "\<exists>xs. v = NpArray xs \<and> i < length xs
                     \<and> map_of eval_results (k @ ''.'' @ class_names ! i)
                         = Some (np_div100 (numpy env) (np_round2 (numpy env)
                                   (np_times100 (numpy env) (xs ! i))))" .
  qed
  with c n show ?thesis by blast
qed

lemma example_evaluate_run:
  "evaluate example_eval_env (example_self 1 [''road'', ''car''])
       ([] :: (nat, int) eval_result list) (MetricStr ''mIoU'') None
     = Inr [(''aAcc'', 7), (''mIoU'', 2), (''mAcc'', 7),
            (''IoU.road'', 1), (''IoU.car'', 3), (''Acc.road'', 5), (''Acc.car'', 9)]"
  by (simp add: evaluate_def compute_metrics_def reorder_results_def Let_def
        is_list_of_ndarray_def lift_ext_def example_self_def allowed_metrics_def
        example_eval_env_def example_ops_def metric_list_def format_results_def
        metrics_summary_def metrics_class_def od_update_def summary_key_def np_index_def)

lemma example_compute_metrics:
  "compute_metrics example_eval_env (example_self 1 classes)
       (reorder_results (md_num_gpus (example_self 1 classes))
          ([] :: (nat, int) eval_result list))
       (metric_list (MetricStr ''mIoU'')) None
     = Inr [(''aAcc'', NpScalar 7), (''IoU'', NpArray [1, 3]), (''Acc'', NpArray [5, 9])]"
  by (simp add: compute_metrics_def reorder_results_def Let_def
        is_list_of_ndarray_def lift_ext_def example_self_def example_eval_env_def)

theorem evaluate_result_entries_witness:
  "evaluate example_eval_env (example_self 1 [''road'', ''car''])
       ([] :: (nat, int) eval_result list) (MetricStr ''mIoU'') None
     = Inr [(''aAcc'', 7), (''mIoU'', 2), (''mAcc'', 7),
            (''IoU.road'', 1), (''IoU.car'', 3), (''Acc.road'', 5), (''Acc.car'', 9)]
   \<and> distinct (map fst [(''aAcc'', NpScalar (7::int)), (''IoU'', NpArray [1, 3]),
                          (''Acc'', NpArray [5, 9])])
   \<and> CHR ''.'' \<notin> set ''aAcc'' \<and> CHR ''.'' \<notin> set ''IoU'' \<and> CHR ''.'' \<notin> set ''Acc''
   \<and> distinct [''road'', ''car'']
   \<and> map_of [(''aAcc'', 7), (''mIoU'', 2), (''mAcc'', 7),
              (''IoU.road'', 1), (''IoU.car'', 3), (''Acc.road'', 5), (''Acc.car'', 9)] ''mIoU''
       = Some (np_div100 example_ops (np_round2 example_ops
                 (np_times100 example_ops (np_nanmean example_ops (NpArray [1, 3])))))
   \<and> map_of [(''aAcc'', 7), (''mIoU'', 2), (''mAcc'', 7),
              (''IoU.road'', 1), (''IoU.car'', 3), (''Acc.road'', 5), (''Acc.car'', 9)] ''aAcc''
       = Some (np_div100 example_ops (np_round2 example_ops
                 (np_times100 example_ops (np_nanmean example_ops (NpScalar 7)))))
   \<and> map_of [(''aAcc'', 7), (''mIoU'', 2), (''mAcc'', 7),
              (''IoU.road'', 1), (''IoU.car'', 3), (''Acc.road'', 5), (''Acc.car'', 9)]
          (''IoU'' @ ''.'' @ [''road'', ''car''] ! 1)
       = Some (np_div100 example_ops (np_round2 example_ops
                 (np_times100 example_ops ([1, 3] ! 1))))"
proof -
  let ?ms = "[(''aAcc'', NpScalar (7::int)), (''IoU'', NpArray [1, 3]), (''Acc'', NpArray [5, 9])]"
  let ?r = "[(''aAcc'', 7::int), (''mIoU'', 2), (''mAcc'', 7),
             (''IoU.road'', 1), (''IoU.car'', 3), (''Acc.road'', 5), (''Acc.car'', 9)]"
  note run = example_evaluate_run
  from evaluate_result_entries[OF run] obtain ret_metrics class_names where
    c: "compute_metrics example_eval_env (example_self 1 [''road'', ''car''])
          (reorder_results (md_num_gpus (example_self 1 [''road'', ''car'']))
             ([] :: (nat, int) eval_result list))
          (metric_list (MetricStr ''mIoU'')) None = Inr ret_metrics"
    and n: "md_CLASSES (example_self 1 [''road'', ''car'']) = Some class_names"
    and e: "distinct (map fst ret_metrics) \<and> (\<forall>k \<in> fst ` set ret_metrics. CHR ''.'' \<notin> set k) \<longrightarrow>
          (\<forall>k v. (k, v) \<in> set ret_metrics \<longrightarrow>
             map_of ?r (if k = ''aAcc'' then ''aAcc'' else ''m'' @ k)
               = Some (np_div100 (numpy example_eval_env) (np_round2 (numpy example_eval_env)
                         (np_times100 (numpy example_eval_env)
                            (np_nanmean (numpy example_eval_env) v)))))
          \<and> (distinct class_names \<longrightarrow>
               (\<forall>k v i. (k, v) \<in> set ret_metrics \<and> k \<noteq> ''aAcc'' \<and> k \<noteq> ''Class''
                          \<and> i < length class_names \<longrightarrow>
                  (\<exists>xs. v = NpArray xs \<and> i < length xs
                     \<and> map_of ?r (k @ ''.'' @ class_names ! i)
                         = Some (np_div100 (numpy example_eval_env)
                                   (np_round2 (numpy example_eval_env)
                                      (np_times100 (numpy example_eval_env) (xs ! i)))))))"
    by (elim exE conjE)
  from c have rm: "ret_metrics = ?ms" by (simp add: example_compute_metrics)
  from n have cn: "class_names = [''road'', ''car'']" by (simp add: example_self_def)
  have ops: "numpy example_eval_env = example_ops" by (simp add: example_eval_env_def)
  have d: "distinct (map fst ?ms)" by simp
  have dots: "\<forall>k \<in> fst ` set ?ms. CHR ''.'' \<notin> set k" by simp
  have dcn: "distinct [''road'', ''car'']" by simp
  from e d dots have s: "\<forall>k v. (k, v) \<in> set ?ms \<longrightarrow>
             map_of ?r (if k = ''aAcc'' then ''aAcc'' else ''m'' @ k)
               = Some (np_div100 example_ops (np_round2 example_ops
                         (np_times100 example_ops (np_nanmean example_ops v))))"
    unfolding rm cn ops by blast
  from e d dots dcn have p: "\<forall>k v i. (k, v) \<in> set ?ms \<and> k \<noteq> ''aAcc'' \<and> k \<noteq> ''Class''
                          \<and> i < length [''road'', ''car''] \<longrightarrow>
                  (\<exists>xs. v = NpArray xs \<and> i < length xs
                     \<and> map_of ?r (k @ ''.'' @ [''road'', ''car''] ! i)
                         = Some (np_div100 example_ops (np_round2 example_ops
                                   (np_times100 example_ops (xs ! i)))))"
    unfolding rm cn ops by blast
  have s1: "map_of ?r ''mIoU'' = Some (np_div100 example_ops (np_round2 example_ops
                 (np_times100 example_ops (np_nanmean example_ops (NpArray [1, 3])))))"
    using s[rule_format, of "''IoU''" "NpArray [1, 3]"] by simp
  have s2: "map_of ?r ''aAcc'' = Some (np_div100 example_ops (np_round2 example_ops
                 (np_times100 example_ops (np_nanmean example_ops (NpScalar 7)))))"
    using s[rule_format, of "''aAcc''" "NpScalar 7"] by simp
  have p1: "map_of ?r (''IoU'' @ ''.'' @ [''road'', ''car''] ! 1)
       = Some (np_div100 example_ops (np_round2 example_ops
                 (np_times100 example_ops ([1, 3] ! 1))))"
    using p[rule_format, of "''IoU''" "NpArray [1, 3]" 1] by simp
  have nodot: "CHR ''.'' \<notin> set ''aAcc''" "CHR ''.'' \<notin> set ''IoU''" "CHR ''.'' \<notin> set ''Acc''"
    by simp_all
  show ?thesis
    using run d nodot dcn s1 s2 p1 by (intro conjI)
qed

theorem evaluate_repeated_class_names_counterexample:
  "evaluate example_eval_env (example_self 1 [''road'', ''road''])
       ([] :: (nat, int) eval_result list) (MetricStr ''mIoU'') None
     = Inr [(''aAcc'', 7), (''mIoU'', 2), (''mAcc'', 7), (''IoU.road'', 3), (''Acc.road'', 9)]
   \<and> compute_metrics example_eval_env (example_self 1 [''road'', ''road''])
       (reorder_results (md_num_gpus (example_self 1 [''road'', ''road'']))
          ([] :: (nat, int) eval_result list))
       (metric_list (MetricStr ''mIoU'')) None
     = Inr [(''aAcc'', NpScalar 7), (''IoU'', NpArray [1, 3]), (''Acc'', NpArray [5, 9])]
   \<and> map_of [(''aAcc'', 7), (''mIoU'', 2), (''mAcc'', 7), (''IoU.road'', 3), (''Acc.road'', 9)]
         (''IoU'' @ ''.'' @ [''road'', ''road''] ! 0)
       \<noteq> Some (np_div100 example_ops (np_round2 example_ops
                 (np_times100 example_ops ([1, 3] ! 0))))"
  by (simp add: evaluate_def compute_metrics_def reorder_results_def Let_def
        is_list_of_ndarray_def lift_ext_def example_self_def allowed_metrics_def
        example_eval_env_def example_ops_def metric_list_def format_results_def
        metrics_summary_def metrics_class_def od_update_def summary_key_def np_index_def)

section \<open>The distributed flag in build_dataloader\<close>

lemma build_steps_not_NotImplemented:
  "build_steps bfc steps \<noteq> Inl (NotImplementedError m)"
  by (induction steps)
     (auto simp: py_item_def dict_item_def lift_ext_def split: sum.splits pyval.splits option.splits)

lemma build_pipeline_not_NotImplemented:
  "build_pipeline bfc steps \<noteq> Inl (NotImplementedError m)"
  by (auto simp: build_pipeline_def py_iter_def build_steps_not_NotImplemented
           split: sum.splits pyval.splits)

lemma dict_item_Inl: "dict_item d k = Inl e \<Longrightarrow> e = KeyError k"
  by (auto simp: dict_item_def split: option.splits)

lemma dataset_getitem_Inl:
  "dataset_getitem ds key = Inl e \<Longrightarrow> e = InvalidKeyTypeError \<or> (\<exists>n. e = TensorDoesNotExistError n)"
  by (auto simp: dataset_getitem_def split: option.splits pyval.splits)

lemma MMSegDataset_init_not_NotImplemented:
  "MMSegDataset_init ds td mode \<noteq> Inl (NotImplementedError m)"
  by (auto simp: MMSegDataset_init_def split: sum.splits dest: dict_item_Inl dataset_getitem_Inl)

lemma make_loader_not_NotImplemented:
  "fst (make_loader ds classes img msk impl pipeline mode cfg pw dist) \<noteq> Inl (NotImplementedError m)"
  by (auto simp: make_loader_def Let_def MMSegDataset_init_not_NotImplemented
           split: sum.splits pyval.splits dest: dict_item_Inl)

lemma make_loader_NotImplementedE:
  "make_loader ds classes img msk impl pipeline mode cfg pw dist = (Inl (NotImplementedError m), w)
     \<Longrightarrow> False"
  using make_loader_not_NotImplemented[of ds classes img msk impl pipeline mode cfg pw dist m]
  by simp

lemma build_dataloader_dist_python_error:
  assumes "dict_item train_loader_config ''dist'' = Inr dist" and "py_truthy dist"
    and "dataset_getitem ds masks_tensor = Inr masks"
    and "build_pipeline bfc pl = Inr pipeline"
  shows "build_dataloader bfc ds images_tensor masks_tensor ''python'' pl mode train_loader_config
           = (Inl (NotImplementedError dist_not_supported),
              ds\<lparr>ds_CLASSES := Some (t_class_names masks)\<rparr>, [])"
  using assms by (simp add: build_dataloader_def Let_def)

lemma build_dataloader_dist_python_no_loader:
  assumes "dict_item train_loader_config ''dist'' = Inr dist" and "py_truthy dist"
  shows "fst (build_dataloader bfc ds images_tensor masks_tensor ''python'' pl mode train_loader_config)
           \<noteq> Inr l"
  using assms by (simp add: build_dataloader_def Let_def split: sum.splits)

text \<open>
  C1 (amended). For every call of \<open>build_dataloader\<close> whose distributed flag
  \<open>train_loader_config['dist']\<close> is true and whose implementation is \<open>python\<close>: no loader
  is ever constructed; and when the class names of \<open>dataset[masks_tensor]\<close> can be read and
  the pipeline can be built (lines 695-697, which run before the flag is read), the call
  raises the \<open>NotImplementedError\<close> that tells the caller to use the C++ data loader.
\<close>

theorem build_dataloader_dist_python:
  assumes "dict_item train_loader_config ''dist'' = Inr dist" and "py_truthy dist"
  shows "(\<forall>l. fst (build_dataloader bfc ds images_tensor masks_tensor ''python'' pl mode
                    train_loader_config) \<noteq> Inr l)
       \<and> ((\<exists>masks. dataset_getitem ds masks_tensor = Inr masks)
            \<and> (\<exists>pipeline. build_pipeline bfc pl = Inr pipeline)
          \<longrightarrow> fst (build_dataloader bfc ds images_tensor masks_tensor ''python'' pl mode
                    train_loader_config) = Inl (NotImplementedError dist_not_supported))"
  using build_dataloader_dist_python_no_loader[OF assms]
    build_dataloader_dist_python_error[OF assms]
  by (metis fst_conv)

text \<open>
  C7 (amended). When \<open>build_dataloader\<close> raises the error for distributed training with
  the python data loader, no warning has been emitted and the tensors of the dataset are as
  they were, but the attribute \<open>CLASSES\<close> of the dataset has been assigned the class names
  of \<open>dataset[masks_tensor]\<close> (line 696 runs before the check of line 702).
\<close>

theorem build_dataloader_error_sets_CLASSES:
  assumes "fst (build_dataloader bfc ds images_tensor masks_tensor implementation pl mode
                  train_loader_config) = Inl (NotImplementedError dist_not_supported)"
  shows "\<exists>masks. dataset_getitem ds masks_tensor = Inr masks
           \<and> fst (snd (build_dataloader bfc ds images_tensor masks_tensor implementation pl mode
                  train_loader_config)) = ds\<lparr>ds_CLASSES := Some (t_class_names masks)\<rparr>
           \<and> snd (snd (build_dataloader bfc ds images_tensor masks_tensor implementation pl mode
                  train_loader_config)) = []"
proof -
  let ?r = "build_dataloader bfc ds images_tensor masks_tensor implementation pl mode
                  train_loader_config"
  from assms obtain masks where m: "dataset_getitem ds masks_tensor = Inr masks"
    by (cases "dataset_getitem ds masks_tensor")
       (auto simp: build_dataloader_def dataset_getitem_def split: pyval.splits option.splits)
  from assms m obtain pipeline where p: "build_pipeline bfc pl = Inr pipeline"
    by (cases "build_pipeline bfc pl")
       (auto simp: build_dataloader_def Let_def build_pipeline_not_NotImplemented)
  from assms m p obtain dist where d: "dict_item train_loader_config ''dist'' = Inr dist"
    by (cases "dict_item train_loader_config ''dist''")
       (auto simp: build_dataloader_def Let_def dict_item_def split: option.splits)
  have "py_truthy dist \<and> implementation = ''python''"
  proof (rule ccontr)
    assume "\<not> (py_truthy dist \<and> implementation = ''python'')"
    with assms m p d show False
      by (auto simp: build_dataloader_def Let_def split: prod.splits
               dest: make_loader_NotImplementedE)
  qed
  with m p d have "?r = (Inl (NotImplementedError dist_not_supported),
                        ds\<lparr>ds_CLASSES := Some (t_class_names masks)\<rparr>, [])"
    by (simp add: build_dataloader_def Let_def)
  with m show ?thesis by simp
qed

theorem build_dataloader_dist_python_witness:
  "dict_item [(''dist'', PBool True), (''workers_per_gpu'', PInt 2)] ''dist'' = Inr (PBool True)
   \<and> py_truthy (PBool True)
   \<and> fst (build_dataloader (\<lambda>step. Inr step)
         \<lparr>ds_tensors =
             [(''images'', \<lparr>t_htype = ''image'', t_class_names = []\<rparr>),
              (''masks'', \<lparr>t_htype = ''segment_mask'',
                           t_class_names = [''background'', ''road'']\<rparr>)],
           ds_CLASSES = None\<rparr>
         (PStr ''images'') (PStr ''masks'') ''python'' (PList []) (PStr ''train'')
         [(''dist'', PBool True), (''workers_per_gpu'', PInt 2)])
       = (Inl (NotImplementedError dist_not_supported) :: error + pyval loader)"
proof -
  have d: "dict_item [(''dist'', PBool True), (''workers_per_gpu'', PInt 2)] ''dist''
             = Inr (PBool True)"
    by (simp add: dict_item_def)
  have t: "py_truthy (PBool True)" by simp
  have m: "\<exists>masks. dataset_getitem
         \<lparr>ds_tensors =
             [(''images'', \<lparr>t_htype = ''image'', t_class_names = []\<rparr>),
              (''masks'', \<lparr>t_htype = ''segment_mask'',
                           t_class_names = [''background'', ''road'']\<rparr>)],
           ds_CLASSES = None\<rparr> (PStr ''masks'') = Inr masks"
    by (simp add: dataset_getitem_def)
  have p: "\<exists>pipeline. build_pipeline (\<lambda>step. Inr step :: string + pyval) (PList []) = Inr pipeline"
    by (simp add: build_pipeline_def py_iter_def)
  show ?thesis
    using build_dataloader_dist_python[OF d t, of "\<lambda>step. Inr step" _ "PStr ''images''"
        "PStr ''masks'' " "PList []" "PStr ''train''"] m p d t
    by blast
qed

theorem build_dataloader_dist_python_counterexample:
  "dict_item [(''dist'', PBool True), (''workers_per_gpu'', PInt 2)] ''dist'' = Inr (PBool True)
   \<and> py_truthy (PBool True)
   \<and> fst (build_dataloader (\<lambda>step. Inr step)
         \<lparr>ds_tensors =
             [(''images'', \<lparr>t_htype = ''image'', t_class_names = []\<rparr>),
              (''masks'', \<lparr>t_htype = ''segment_mask'',
                           t_class_names = [''background'', ''road'']\<rparr>)],
           ds_CLASSES = None\<rparr>
         (PStr ''images'') (PStr ''labels'') ''python'' (PList []) (PStr ''train'')
         [(''dist'', PBool True), (''workers_per_gpu'', PInt 2)])
       = (Inl (TensorDoesNotExistError ''labels'') :: error + pyval loader)
   \<and> fst (build_dataloader (\<lambda>step. Inr step)
         \<lparr>ds_tensors =
             [(''images'', \<lparr>t_htype = ''image'', t_class_names = []\<rparr>),
              (''masks'', \<lparr>t_htype = ''segment_mask'',
                           t_class_names = [''background'', ''road'']\<rparr>)],
           ds_CLASSES = None\<rparr>
         (PStr ''images'') (PStr ''masks'') ''python''
         (PList [PDict [(''name'', PStr ''RandomFlip'')]]) (PStr ''train'')
         [(''dist'', PBool True), (''workers_per_gpu'', PInt 2)])
       = (Inl (KeyError ''type'') :: error + pyval loader)
   \<and> fst (build_dataloader (\<lambda>step. Inr step)
         \<lparr>ds_tensors =
             [(''images'', \<lparr>t_htype = ''image'', t_class_names = []\<rparr>),
              (''masks'', \<lparr>t_htype = ''segment_mask'',
                           t_class_names = [''background'', ''road'']\<rparr>)],
           ds_CLASSES = None\<rparr>
         (PStr ''images'') PNone ''python'' (PList []) (PStr ''train'')
         [(''dist'', PBool True), (''workers_per_gpu'', PInt 2)])
       = (Inl InvalidKeyTypeError :: error + pyval loader)"
  by (simp add: build_dataloader_def dataset_getitem_def dict_item_def build_pipeline_def
        py_iter_def py_item_def Let_def)

theorem build_dataloader_error_sets_CLASSES_witness:
  "fst (build_dataloader (\<lambda>step. Inr step)
         \<lparr>ds_tensors =
             [(''images'', \<lparr>t_htype = ''image'', t_class_names = []\<rparr>),
              (''masks'', \<lparr>t_htype = ''segment_mask'',
                           t_class_names = [''background'', ''road'']\<rparr>)],
           ds_CLASSES = None\<rparr>
         (PStr ''images'') (PStr ''masks'') ''python'' (PList []) (PStr ''train'')
         [(''dist'', PBool True), (''workers_per_gpu'', PInt 2)])
       = (Inl (NotImplementedError dist_not_supported) :: error + pyval loader)
   \<and> fst (snd (build_dataloader (\<lambda>step. Inr step :: string + pyval)
         \<lparr>ds_tensors =
             [(''images'', \<lparr>t_htype = ''image'', t_class_names = []\<rparr>),
              (''masks'', \<lparr>t_htype = ''segment_mask'',
                           t_class_names = [''background'', ''road'']\<rparr>)],
           ds_CLASSES = None\<rparr>
         (PStr ''images'') (PStr ''masks'') ''python'' (PList []) (PStr ''train'')
         [(''dist'', PBool True), (''workers_per_gpu'', PInt 2)]))
       = \<lparr>ds_tensors =
             [(''images'', \<lparr>t_htype = ''image'', t_class_names = []\<rparr>),
              (''masks'', \<lparr>t_htype = ''segment_mask'',
                           t_class_names = [''background'', ''road'']\<rparr>)],
           ds_CLASSES = Some [''background'', ''road'']\<rparr>"
proof -
  have e: "fst (build_dataloader (\<lambda>step. Inr step)
         \<lparr>ds_tensors =
             [(''images'', \<lparr>t_htype = ''image'', t_class_names = []\<rparr>),
              (''masks'', \<lparr>t_htype = ''segment_mask'',
                           t_class_names = [''background'', ''road'']\<rparr>)],
           ds_CLASSES = None\<rparr>
         (PStr ''images'') (PStr ''masks'') ''python'' (PList []) (PStr ''train'')
         [(''dist'', PBool True), (''workers_per_gpu'', PInt 2)])
       = (Inl (NotImplementedError dist_not_supported) :: error + pyval loader)"
    by (simp add: build_dataloader_def dataset_getitem_def dict_item_def build_pipeline_def
          py_iter_def Let_def)
  show ?thesis
    using build_dataloader_error_sets_CLASSES[OF e] e
    by (auto simp: dataset_getitem_def)
qed

theorem build_dataloader_error_unchanged_counterexample:
  "fst (build_dataloader (\<lambda>step. Inr step)
         \<lparr>ds_tensors =
             [(''images'', \<lparr>t_htype = ''image'', t_class_names = []\<rparr>),
              (''masks'', \<lparr>t_htype = ''segment_mask'',
                           t_class_names = [''background'', ''road'']\<rparr>)],
           ds_CLASSES = None\<rparr>
         (PStr ''images'') (PStr ''masks'') ''python'' (PList []) (PStr ''train'')
         [(''dist'', PBool True), (''workers_per_gpu'', PInt 2)])
       = (Inl (NotImplementedError dist_not_supported) :: error + pyval loader)
   \<and> fst (snd (build_dataloader (\<lambda>step. Inr step :: string + pyval)
         \<lparr>ds_tensors =
             [(''images'', \<lparr>t_htype = ''image'', t_class_names = []\<rparr>),
              (''masks'', \<lparr>t_htype = ''segment_mask'',
                           t_class_names = [''background'', ''road'']\<rparr>)],
           ds_CLASSES = None\<rparr>
         (PStr ''images'') (PStr ''masks'') ''python'' (PList []) (PStr ''train'')
         [(''dist'', PBool True), (''workers_per_gpu'', PInt 2)]))
       \<noteq> \<lparr>ds_tensors =
             [(''images'', \<lparr>t_htype = ''image'', t_class_names = []\<rparr>),
              (''masks'', \<lparr>t_htype = ''segment_mask'',
                           t_class_names = [''background'', ''road'']\<rparr>)],
           ds_CLASSES = None\<rparr>"
  by (simp add: build_dataloader_def dataset_getitem_def dict_item_def build_pipeline_def
        py_iter_def Let_def)

section \<open>What transform hands to the pipeline\<close>

lemma flat3_bound:
  fixes i j k :: nat
  assumes "i < h" "j < w" "k < c"
  shows "(i * w + j) * c + k < h * w * c"
proof -
  have "i * w + j < h * w"
  proof -
    have "i * w + j < i * w + w" using assms by simp
    also have "\<dots> = Suc i * w" by simp
    also have "\<dots> \<le> h * w" using assms by (intro mult_le_mono1) simp
    finally show ?thesis .
  qed
  then have "(i * w + j) * c + k < (i * w + j) * c + c" using assms by simp
  also have "\<dots> = Suc (i * w + j) * c" by simp
  also have "\<dots> \<le> (h * w) * c" using \<open>i * w + j < h * w\<close> by (intro mult_le_mono1) simp
  finally show ?thesis .
qed

lemma nth_map_upt0: "p < n \<Longrightarrow> map g [0 ..< n] ! p = g p"
  by simp

lemma flip_last_axis_item3:
  assumes "nd_shape a = [h, w, c]" "nd_wf a" "i < h" "j < w" "k < c"
  shows "\<exists>b. flip_last_axis a = Inr b \<and> nd_shape b = [h, w, c] \<and> nd_wf b
           \<and> nd_item3 b i j k = nd_item3 a i j (c - 1 - k)"
proof -
  define g where "g = (\<lambda>p. nd_data a ! ((p div c) * c + (c - 1 - p mod c)))"
  define b where "b = a\<lparr>nd_data := map g [0 ..< length (nd_data a)]\<rparr>"
  have len: "length (nd_data a) = h * w * c" using assms(1,2) by (simp add: nd_wf_def)
  have bound: "(i * w + j) * c + k < length (nd_data a)"
    unfolding len using assms(3-5) by (rule flat3_bound)
  have d: "((i * w + j) * c + k) div c = i * w + j" using assms(5) by simp
  have m: "((i * w + j) * c + k) mod c = k" using assms(5) by simp
  have "flip_last_axis a = Inr b"
    using assms(1) by (simp add: flip_last_axis_def Let_def b_def g_def)
  moreover have "nd_shape b = [h, w, c]" using assms(1) by (simp add: b_def)
  moreover have "nd_wf b" using assms(2) by (simp add: b_def nd_wf_def)
  moreover have "nd_item3 b i j k = nd_item3 a i j (c - 1 - k)"
  proof -
    have "nd_item3 b i j k = map g [0 ..< length (nd_data a)] ! ((i * w + j) * c + k)"
      using assms(1) by (simp add: nd_item3_def b_def)
    also have "\<dots> = g ((i * w + j) * c + k)" using bound by (rule nth_map_upt0)
    also have "\<dots> = nd_data a ! ((i * w + j) * c + (c - 1 - k))"
      unfolding g_def by (simp only: d m)
    also have "\<dots> = nd_item3 a i j (c - 1 - k)" using assms(1) by (simp add: nd_item3_def)
    finally show ?thesis .
  qed
  ultimately show ?thesis by blast
qed

lemma flip_last_axis_shape:
  assumes "nd_shape a \<noteq> []"
  shows "\<exists>b. flip_last_axis a = Inr b \<and> nd_shape b = nd_shape a
           \<and> length (nd_data b) = length (nd_data a)"
  using assms by (simp add: flip_last_axis_def Let_def)

lemma repeat3_axis2_item3:
  assumes "nd_shape a = [h, w, 1]" "nd_wf a" "i < h" "j < w" "k < 3"
  shows "nd_item3 (repeat3_axis2 a) i j k = nd_item3 a i j 0"
proof -
  define g where "g = (\<lambda>p. nd_data a ! ((p div (3 * 1)) * 1 + p mod 1))"
  have len: "length (nd_data a) = h * w" using assms(1,2) by (simp add: nd_wf_def)
  have "(i * w + j) * 3 + k < h * w * 3" using assms(3-5) by (rule flat3_bound)
  then have bound: "(i * w + j) * 3 + k < 3 * length (nd_data a)" by (simp add: len mult.commute)
  have d: "((i * w + j) * 3 + k) div 3 = i * w + j" using assms(5) by simp
  have rep: "repeat3_axis2 a
      = \<lparr>nd_shape = [h, w, 3], nd_data = map g [0 ..< 3 * length (nd_data a)]\<rparr>"
    using assms(1) by (simp add: repeat3_axis2_def Let_def g_def)
  have "nd_item3 (repeat3_axis2 a) i j k
      = map g [0 ..< 3 * length (nd_data a)] ! ((i * w + j) * 3 + k)"
    unfolding rep by (simp add: nd_item3_def)
  also have "\<dots> = g ((i * w + j) * 3 + k)" using bound by (rule nth_map_upt0)
  also have "\<dots> = nd_data a ! (i * w + j)" unfolding g_def using d by simp
  also have "\<dots> = nd_item3 a i j 0" using assms(1) by (simp add: nd_item3_def)
  finally show ?thesis .
qed

lemma repeat3_axis2_shape:
  assumes "nd_shape a = [h, w, 1]" "nd_wf a"
  shows "nd_shape (repeat3_axis2 a) = [h, w, 3] \<and> nd_wf (repeat3_axis2 a)"
  using assms by (simp add: repeat3_axis2_def Let_def nd_wf_def)

lemma astype_item3:
  assumes "nd_shape a = [h, w, c]" "nd_wf a" "i < h" "j < w" "k < c"
  shows "nd_item3 (astype f a) i j k = f (nd_item3 a i j k)"
proof -
  have "(i * w + j) * c + k < length (nd_data a)"
    using assms(1,2) flat3_bound[OF assms(3-5)] by (simp add: nd_wf_def)
  then show ?thesis using assms(1) by (simp add: astype_def nd_item3_def)
qed

lemma astype_shape: "nd_shape (astype f a) = nd_shape a \<and> (nd_wf (astype f a) \<longleftrightarrow> nd_wf a)"
  by (simp add: astype_def nd_wf_def)

lemma flip_last_axis_3d:
  assumes "nd_shape a = [h, w, c]" "nd_wf a"
  shows "\<exists>b. flip_last_axis a = Inr b \<and> nd_shape b = [h, w, c] \<and> nd_wf b
           \<and> (\<forall>i<h. \<forall>j<w. \<forall>k<c. nd_item3 b i j k = nd_item3 a i j (c - 1 - k))"
proof -
  from assms(1) obtain b where b: "flip_last_axis a = Inr b" "nd_shape b = [h, w, c]"
    "length (nd_data b) = length (nd_data a)"
    using flip_last_axis_shape[of a] by auto
  have "nd_wf b" using b(2,3) assms by (simp add: nd_wf_def)
  moreover have "nd_item3 b i j k = nd_item3 a i j (c - 1 - k)" if "i < h" "j < w" "k < c" for i j k
    using flip_last_axis_item3[OF assms that] b(1) by auto
  ultimately show ?thesis using b by blast
qed

text \<open>The image handed to the pipeline, as a function of the stored image.\<close>

lemma transform_3d:
  assumes "map_of sample_in images_tensor = Some img"
    and "map_of sample_in masks_tensor = Some gt_mask"
    and "nd_shape img = [h, w, c]" "flip_last_axis img = Inr b" "nd_shape b = [h, w, c]"
  shows "transform float32 sample_in images_tensor masks_tensor pipeline
      = Inr (pipeline
          \<lparr>pd_img = astype float32 (if c = 1 then repeat3_axis2 b else b),
           pd_img_fields = [''img''], pd_filename = None, pd_ori_filename = None,
           pd_img_shape = nd_shape (if c = 1 then repeat3_axis2 b else b),
           pd_ori_shape = nd_shape (if c = 1 then repeat3_axis2 b else b),
           pd_gt_semantic_seg = gt_mask, pd_seg_fields = [''gt_semantic_seg'']\<rparr>)"
  using assms by (simp add: transform_def Let_def)

lemma transform_2d:
  assumes "map_of sample_in images_tensor = Some img"
    and "map_of sample_in masks_tensor = Some gt_mask"
    and "nd_shape img = [h, w]" "flip_last_axis (expand_dims_last img) = Inr b"
    and "nd_shape b = [h, w, 1]"
  shows "transform float32 sample_in images_tensor masks_tensor pipeline
      = Inr (pipeline
          \<lparr>pd_img = astype float32 (repeat3_axis2 b),
           pd_img_fields = [''img''], pd_filename = None, pd_ori_filename = None,
           pd_img_shape = nd_shape (repeat3_axis2 b),
           pd_ori_shape = nd_shape (repeat3_axis2 b),
           pd_gt_semantic_seg = gt_mask, pd_seg_fields = [''gt_semantic_seg'']\<rparr>)"
  using assms by (simp add: transform_def Let_def)

lemma transform_color:
  assumes "map_of sample_in images_tensor = Some img"
    and "map_of sample_in masks_tensor = Some gt_mask"
    and "nd_wf img" "nd_shape img = [h, w, c]" "c \<noteq> 1"
  shows "\<exists>pd. transform float32 sample_in images_tensor masks_tensor pipeline = Inr (pipeline pd)
     \<and> pd_gt_semantic_seg pd = gt_mask
     \<and> pd_img_shape pd = nd_shape (pd_img pd) \<and> pd_ori_shape pd = nd_shape (pd_img pd)
     \<and> nd_shape (pd_img pd) = [h, w, c]
     \<and> (\<forall>i<h. \<forall>j<w. \<forall>k<c.
           nd_item3 (pd_img pd) i j k = float32 (nd_item3 img i j (c - 1 - k)))"
proof -
  from flip_last_axis_3d[OF assms(4,3)] obtain b where
    b: "flip_last_axis img = Inr b" "nd_shape b = [h, w, c]" "nd_wf b"
       "\<forall>i<h. \<forall>j<w. \<forall>k<c. nd_item3 b i j k = nd_item3 img i j (c - 1 - k)"
    by blast
  have items: "nd_item3 (astype float32 b) i j k = float32 (nd_item3 img i j (c - 1 - k))"
    if "i < h" "j < w" "k < c" for i j k
    using astype_item3[OF b(2,3) that] b(4) that by simp
  show ?thesis
    using transform_3d[OF assms(1,2,4) b(1,2), of float32 pipeline] assms(5) items b(2)
    by (intro exI[where x = "\<lparr>pd_img = astype float32 b,
           pd_img_fields = [''img''], pd_filename = None, pd_ori_filename = None,
           pd_img_shape = nd_shape b, pd_ori_shape = nd_shape b,
           pd_gt_semantic_seg = gt_mask, pd_seg_fields = [''gt_semantic_seg'']\<rparr>"])
       (simp add: astype_shape)
qed

lemma transform_single_channel:
  assumes "map_of sample_in images_tensor = Some img"
    and "map_of sample_in masks_tensor = Some gt_mask"
    and "nd_wf img" "nd_shape img = [h, w, 1]"
  shows "\<exists>pd. transform float32 sample_in images_tensor masks_tensor pipeline = Inr (pipeline pd)
     \<and> pd_gt_semantic_seg pd = gt_mask
     \<and> pd_img_shape pd = nd_shape (pd_img pd) \<and> pd_ori_shape pd = nd_shape (pd_img pd)
     \<and> nd_shape (pd_img pd) = [h, w, 3]
     \<and> (\<forall>i<h. \<forall>j<w. \<forall>k<3. nd_item3 (pd_img pd) i j k = float32 (nd_item3 img i j 0))"
proof -
  from flip_last_axis_3d[OF assms(4,3)] obtain b where
    b: "flip_last_axis img = Inr b" "nd_shape b = [h, w, 1]" "nd_wf b"
       "\<forall>i<h. \<forall>j<w. \<forall>k<1. nd_item3 b i j k = nd_item3 img i j (1 - 1 - k)"
    by blast
  have rs: "nd_shape (repeat3_axis2 b) = [h, w, 3]" "nd_wf (repeat3_axis2 b)"
    using repeat3_axis2_shape[OF b(2,3)] by simp_all
  have items: "nd_item3 (astype float32 (repeat3_axis2 b)) i j k = float32 (nd_item3 img i j 0)"
    if "i < h" "j < w" "k < 3" for i j k
    using astype_item3[OF rs that] repeat3_axis2_item3[OF b(2,3) that] b(4) that by simp
  show ?thesis
    using transform_3d[OF assms(1,2,4) b(1,2), of float32 pipeline] items rs
    by (intro exI[where x = "\<lparr>pd_img = astype float32 (repeat3_axis2 b),
           pd_img_fields = [''img''], pd_filename = None, pd_ori_filename = None,
           pd_img_shape = nd_shape (repeat3_axis2 b), pd_ori_shape = nd_shape (repeat3_axis2 b),
           pd_gt_semantic_seg = gt_mask, pd_seg_fields = [''gt_semantic_seg'']\<rparr>"])
       (simp add: astype_shape)
qed

lemma transform_gray:
  assumes "map_of sample_in images_tensor = Some img"
    and "map_of sample_in masks_tensor = Some gt_mask"
    and "nd_wf img" "nd_shape img = [h, w]"
  shows "\<exists>pd. transform float32 sample_in images_tensor masks_tensor pipeline = Inr (pipeline pd)
     \<and> pd_gt_semantic_seg pd = gt_mask
     \<and> pd_img_shape pd = nd_shape (pd_img pd) \<and> pd_ori_shape pd = nd_shape (pd_img pd)
     \<and> nd_shape (pd_img pd) = [h, w, 3]
     \<and> (\<forall>i<h. \<forall>j<w. \<forall>k<3. nd_item3 (pd_img pd) i j k = float32 (nd_item2 img i j))"
proof -
  have es: "nd_shape (expand_dims_last img) = [h, w, 1]" "nd_wf (expand_dims_last img)"
    using assms(3,4) by (simp_all add: expand_dims_last_def nd_wf_def)
  from flip_last_axis_3d[OF es] obtain b where
    b: "flip_last_axis (expand_dims_last img) = Inr b" "nd_shape b = [h, w, 1]" "nd_wf b"
       "\<forall>i<h. \<forall>j<w. \<forall>k<1. nd_item3 b i j k = nd_item3 (expand_dims_last img) i j (1 - 1 - k)"
    by blast
  have e: "nd_item3 (expand_dims_last img) i j 0 = nd_item2 img i j" for i j
    using assms(4) by (simp add: nd_item3_def nd_item2_def expand_dims_last_def)
  have rs: "nd_shape (repeat3_axis2 b) = [h, w, 3]" "nd_wf (repeat3_axis2 b)"
    using repeat3_axis2_shape[OF b(2,3)] by simp_all
  have items: "nd_item3 (astype float32 (repeat3_axis2 b)) i j k = float32 (nd_item2 img i j)"
    if "i < h" "j < w" "k < 3" for i j k
    using astype_item3[OF rs that] repeat3_axis2_item3[OF b(2,3) that] b(4) that e by simp
  show ?thesis
    using transform_2d[OF assms(1,2,4) b(1,2), of float32 pipeline] items rs
    by (intro exI[where x = "\<lparr>pd_img = astype float32 (repeat3_axis2 b),
           pd_img_fields = [''img''], pd_filename = None, pd_ori_filename = None,
           pd_img_shape = nd_shape (repeat3_axis2 b), pd_ori_shape = nd_shape (repeat3_axis2 b),
           pd_gt_semantic_seg = gt_mask, pd_seg_fields = [''gt_semantic_seg'']\<rparr>"])
       (simp add: astype_shape)
qed

text \<open>
  C5. For every sample that holds the images tensor and the masks tensor, with an image of
  two dimensions (\<open>h \<times> w\<close>, grayscale) or three (\<open>h \<times> w \<times> c\<close>), \<open>transform\<close> calls the
  pipeline on a dictionary whose \<open>img\<close> is the stored image converted to \<open>float32\<close> with the
  channel axis reversed: a grayscale image and an image of one channel become
  \<open>h \<times> w \<times> 3\<close> with the one value in each of the three channels, an image with \<open>c \<noteq> 1\<close>
  channels keeps its shape and has channel \<open>k\<close> taken from channel \<open>c - 1 - k\<close>;
  \<open>img_shape\<close> and \<open>ori_shape\<close> are the shape of that image, and \<open>gt_semantic_seg\<close> is
  the stored mask.
\<close>

theorem transform_pipeline_input:
  assumes "map_of sample_in images_tensor = Some img"
    and "map_of sample_in masks_tensor = Some gt_mask"
    and "nd_wf img"
    and "nd_shape img = [h, w] \<or> nd_shape img = [h, w, c]"
  shows "\<exists>pd. transform float32 sample_in images_tensor masks_tensor pipeline = Inr (pipeline pd)
     \<and> pd_gt_semantic_seg pd = gt_mask
     \<and> pd_img_shape pd = nd_shape (pd_img pd) \<and> pd_ori_shape pd = nd_shape (pd_img pd)
     \<and> (nd_shape img = [h, w] \<longrightarrow>
           nd_shape (pd_img pd) = [h, w, 3]
           \<and> (\<forall>i<h. \<forall>j<w. \<forall>k<3. nd_item3 (pd_img pd) i j k = float32 (nd_item2 img i j)))
     \<and> (nd_shape img = [h, w, 1] \<longrightarrow>
           nd_shape (pd_img pd) = [h, w, 3]
           \<and> (\<forall>i<h. \<forall>j<w. \<forall>k<3. nd_item3 (pd_img pd) i j k = float32 (nd_item3 img i j 0)))
     \<and> (nd_shape img = [h, w, c] \<and> c \<noteq> 1 \<longrightarrow>
           nd_shape (pd_img pd) = [h, w, c]
           \<and> (\<forall>i<h. \<forall>j<w. \<forall>k<c.
                 nd_item3 (pd_img pd) i j k = float32 (nd_item3 img i j (c - 1 - k))))"
proof -
  consider (gray) "nd_shape img = [h, w]"
    | (single) "nd_shape img = [h, w, c]" "c = 1"
    | (color) "nd_shape img = [h, w, c]" "c \<noteq> 1"
    using assms(4) by blast
  then show ?thesis
  proof cases
    case gray
    from transform_gray[OF assms(1-3) gray, of float32 pipeline] gray show ?thesis
      by auto
  next
    case single
    then have s: "nd_shape img = [h, w, 1]" by simp
    from transform_single_channel[OF assms(1-3) s, of float32 pipeline] single show ?thesis
      by auto
  next
    case color
    from transform_color[OF assms(1-3) color, of float32 pipeline] color show ?thesis
      by auto
  qed
qed

theorem transform_pipeline_input_witness:
  "map_of [(''images'', \<lparr>nd_shape = [1, 2, 3], nd_data = [10, 20, 30, 40, 50, 60 :: nat]\<rparr>),
           (''masks'', \<lparr>nd_shape = [1, 2], nd_data = [0, 1]\<rparr>)] ''images''
     = Some \<lparr>nd_shape = [1, 2, 3], nd_data = [10, 20, 30, 40, 50, 60]\<rparr>
   \<and> map_of [(''images'', \<lparr>nd_shape = [1, 2, 3], nd_data = [10, 20, 30, 40, 50, 60 :: nat]\<rparr>),
           (''masks'', \<lparr>nd_shape = [1, 2], nd_data = [0, 1]\<rparr>)] ''masks''
     = Some \<lparr>nd_shape = [1, 2], nd_data = [0, 1]\<rparr>
   \<and> nd_wf \<lparr>nd_shape = [1, 2, 3], nd_data = [10, 20, 30, 40, 50, 60 :: nat]\<rparr>
   \<and> (\<exists>pd. transform int
          [(''images'', \<lparr>nd_shape = [1, 2, 3], nd_data = [10, 20, 30, 40, 50, 60 :: nat]\<rparr>),
           (''masks'', \<lparr>nd_shape = [1, 2], nd_data = [0, 1]\<rparr>)] ''images'' ''masks'' id
          = Inr pd
        \<and> pd_gt_semantic_seg pd = \<lparr>nd_shape = [1, 2], nd_data = [0, 1]\<rparr>
        \<and> pd_img_shape pd = [1, 2, 3] \<and> pd_ori_shape pd = [1, 2, 3]
        \<and> nd_item3 (pd_img pd) 0 1 0 = 60 \<and> nd_item3 (pd_img pd) 0 1 2 = 40)"
proof -
  let ?img = "\<lparr>nd_shape = [1, 2, 3], nd_data = [10, 20, 30, 40, 50, 60 :: nat]\<rparr>"
  let ?msk = "\<lparr>nd_shape = [1, 2], nd_data = [0, 1 :: nat]\<rparr>"
  have a: "map_of [(''images'', ?img), (''masks'', ?msk)] ''images'' = Some ?img" by simp
  have b: "map_of [(''images'', ?img), (''masks'', ?msk)] ''masks'' = Some ?msk" by simp
  have c: "nd_wf ?img" by (simp add: nd_wf_def)
  have d: "nd_shape ?img = [1, 2] \<or> nd_shape ?img = [1, 2, 3]" by simp
  have e: "nd_item3 ?img 0 1 (3 - 1 - 0) = 60" "nd_item3 ?img 0 1 (3 - 1 - 2) = 40"
    by (simp_all add: nd_item3_def)
  from transform_pipeline_input[OF a b c d, of int id] obtain pd where
    pd: "transform int [(''images'', ?img), (''masks'', ?msk)] ''images'' ''masks'' id = Inr (id pd)"
      "pd_gt_semantic_seg pd = ?msk" "pd_img_shape pd = nd_shape (pd_img pd)"
      "pd_ori_shape pd = nd_shape (pd_img pd)" "nd_shape (pd_img pd) = [1, 2, 3]"
      "\<forall>i<1. \<forall>j<2. \<forall>k<3. nd_item3 (pd_img pd) i j k = int (nd_item3 ?img i j (3 - 1 - k))"
    by auto
  from pd(6) e have "nd_item3 (pd_img pd) 0 1 0 = 60" "nd_item3 (pd_img pd) 0 1 2 = 40"
    by simp_all
  with pd a b c show ?thesis by auto
qed

section \<open>Outcomes, dictionaries and the loader\<close>

lemma and_then_pure_Inr [simp]: "and_then (pure (Inr v)) f = f v"
  by (simp add: and_then_def pure_def split: prod.splits)

lemma and_then_pure_Inl [simp]: "and_then (pure (Inl e)) f = raises e"
  by (simp add: and_then_def pure_def raises_def)

lemma and_then_returns [simp]: "and_then (returns v) f = f v"
  by (simp add: and_then_def returns_def split: prod.splits)

lemma and_then_raises [simp]: "and_then (raises e) f = raises e"
  by (simp add: and_then_def raises_def)

lemma map_of_dict_set: "map_of (dict_set d k v) = (map_of d)(k \<mapsto> v)"
  by (induction d k v rule: dict_set.induct) (auto simp: fun_eq_iff)

lemma map_of_dict_merge:
  "distinct (map fst b) \<Longrightarrow> map_of (dict_merge a b) = map_of a ++ map_of b"
  unfolding dict_merge_def
proof (induction b arbitrary: a)
  case Nil
  then show ?case by simp
next
  case (Cons kv b)
  obtain k v where kv: "kv = (k, v)" by (cases kv)
  from Cons.prems have d: "distinct (map fst b)" and k: "map_of b k = None"
    by (auto simp: kv map_of_eq_None_iff)
  show ?case
    using k by (auto simp: kv Cons.IH[OF d] map_of_dict_set map_add_def fun_eq_iff
                     split: option.splits)
qed

lemma dict_get_merge_default:
  assumes "distinct (map fst b)" "map_of b k = Some v"
  shows "dict_get (dict_merge a b) k d = v"
proof -
  have "(map_of a ++ map_of b) k = Some v" using assms(2) by (rule map_add_find_right)
  then show ?thesis by (simp add: dict_get_def map_of_dict_merge[OF assms(1)])
qed

lemma map_of_filter_key:
  "k \<noteq> k' \<Longrightarrow> map_of (filter (\<lambda>(x, v). x \<noteq> k') d) k = map_of d k"
  by (induction d) auto

lemma fst_returns [simp]: "fst (returns v) = Inr v"
  by (simp add: returns_def)

lemma fst_raises [simp]: "fst (raises e) = Inl e"
  by (simp add: raises_def)

lemma fst_pure [simp]: "fst (pure r) = r"
  by (simp add: pure_def)

lemma warns_only_returns [simp]: "warns_only P (returns v)"
  by (simp add: warns_only_def returns_def)

lemma warns_only_raises [simp]: "warns_only P (raises e)"
  by (simp add: warns_only_def raises_def)

lemma warns_only_pure [simp]: "warns_only P (pure r)"
  by (simp add: warns_only_def pure_def)

lemma warns_only_always_warn [simp]: "warns_only P (always_warn msg) \<longleftrightarrow> P msg"
  by (simp add: warns_only_def always_warn_def)

lemma warns_only_and_then:
  "warns_only P m \<Longrightarrow> (\<And>v. fst m = Inr v \<Longrightarrow> warns_only P (f v)) \<Longrightarrow> warns_only P (and_then m f)"
  by (cases m) (auto simp: warns_only_def and_then_def split: sum.splits prod.splits)

lemma ensures_and_then:
  "(\<And>u. fst m = Inr u \<Longrightarrow> ensures Q (f u)) \<Longrightarrow> ensures Q (and_then m f)"
  by (cases m) (auto simp: ensures_def and_then_def split: sum.splits prod.splits)

lemma ensures_raises [simp]: "ensures Q (raises e)"
  by (simp add: ensures_def raises_def)

lemma ensures_returns [simp]: "ensures Q (returns v) \<longleftrightarrow> Q v"
  by (simp add: ensures_def returns_def)

lemma shuffle_ignored_neq [simp]:
  "dataset_given_twice \<noteq> shuffle_ignored" "persistent_workers_warning \<noteq> shuffle_ignored"
  by (simp_all add: dataset_given_twice_def shuffle_ignored_def persistent_workers_warning_def)

lemma make_loader_warnings:
  "set (snd (make_loader ds classes img msk impl pl mode cfg pw dist)) \<subseteq> {persistent_workers_warning}"
  by (auto simp: make_loader_def Let_def split: sum.splits pyval.splits if_splits)

lemma build_dataloader_Inr:
  assumes "fst (build_dataloader bfc ds img msk impl pl mode cfg) = Inr l"
  shows "\<exists>masks pipeline dist.
           dataset_getitem ds msk = Inr masks \<and> build_pipeline bfc pl = Inr pipeline
           \<and> dict_item cfg ''dist'' = Inr dist \<and> \<not> (py_truthy dist \<and> impl = ''python'')
           \<and> fst (make_loader (ds\<lparr>ds_CLASSES := Some (t_class_names masks)\<rparr>)
                    (t_class_names masks) img msk impl pipeline mode cfg
                    (dict_get cfg ''persistent_workers'' (PBool False)) dist) = Inr l
           \<and> fst (snd (build_dataloader bfc ds img msk impl pl mode cfg))
               = ds\<lparr>ds_CLASSES := Some (t_class_names masks)\<rparr>"
proof -
  from assms obtain masks where m: "dataset_getitem ds msk = Inr masks"
    by (cases "dataset_getitem ds msk") (auto simp: build_dataloader_def)
  from assms m obtain pipeline where p: "build_pipeline bfc pl = Inr pipeline"
    by (cases "build_pipeline bfc pl") (auto simp: build_dataloader_def Let_def)
  from assms m p obtain dist where d: "dict_item cfg ''dist'' = Inr dist"
    by (cases "dict_item cfg ''dist''") (auto simp: build_dataloader_def Let_def)
  from assms m p d have n: "\<not> (py_truthy dist \<and> impl = ''python'')"
    by (auto simp: build_dataloader_def Let_def)
  with assms m p d show ?thesis
    by (simp add: build_dataloader_def Let_def split: prod.splits)
qed

lemma build_dataloader_warnings:
  "set (snd (snd (build_dataloader bfc ds img msk impl pl mode cfg))) \<subseteq> {persistent_workers_warning}"
proof (cases "\<exists>masks pipeline dist.
           dataset_getitem ds msk = Inr masks \<and> build_pipeline bfc pl = Inr pipeline
           \<and> dict_item cfg ''dist'' = Inr dist \<and> \<not> (py_truthy dist \<and> impl = ''python'')")
  case True
  then obtain masks pipeline dist where
    "dataset_getitem ds msk = Inr masks" "build_pipeline bfc pl = Inr pipeline"
    "dict_item cfg ''dist'' = Inr dist" "\<not> (py_truthy dist \<and> impl = ''python'')"
    by blast
  then have "snd (snd (build_dataloader bfc ds img msk impl pl mode cfg))
      = snd (make_loader (ds\<lparr>ds_CLASSES := Some (t_class_names masks)\<rparr>)
                    (t_class_names masks) img msk impl pipeline mode cfg
                    (dict_get cfg ''persistent_workers'' (PBool False)) dist)"
    by (auto simp: build_dataloader_def Let_def split: prod.splits)
  then show ?thesis using make_loader_warnings by metis
next
  case False
  then have "snd (snd (build_dataloader bfc ds img msk impl pl mode cfg)) = []"
    by (auto simp: build_dataloader_def Let_def split: sum.splits)
  then show ?thesis by simp
qed

lemma make_loader_shuffle:
  "fst (make_loader ds classes img msk impl pl mode cfg pw dist) = Inr l
     \<Longrightarrow> ld_shuffle l = dict_get cfg ''shuffle'' (PBool True)"
  by (auto simp: make_loader_def Let_def split: sum.splits pyval.splits if_splits)

lemma build_dataloader_shuffle:
  "fst (build_dataloader bfc ds img msk impl pl mode cfg) = Inr l
     \<Longrightarrow> ld_shuffle l = dict_get cfg ''shuffle'' (PBool True)"
  using build_dataloader_Inr make_loader_shuffle by blast

lemma call_build_dataloader_warnings:
  "warns_only (\<lambda>w. w \<noteq> shuffle_ignored)
     (call_build_dataloader bfc ds img msk pl impl kwargs)"
proof -
  have "set (snd (call_build_dataloader bfc ds img msk pl impl kwargs))
          \<subseteq> {persistent_workers_warning}"
    using build_dataloader_warnings[of bfc ds img msk impl pl
            "dict_get kwargs ''mode'' (PStr ''train'')" "filter (\<lambda>(k, v). k \<noteq> ''mode'') kwargs"]
    by (auto simp: call_build_dataloader_def raises_def split: prod.splits sum.splits)
  then have eq: "w = persistent_workers_warning"
    if "w \<in> set (snd (call_build_dataloader bfc ds img msk pl impl kwargs))" for w
    using that by (drule_tac subsetD) simp_all
  show ?thesis
    unfolding warns_only_def
  proof
    fix w assume "w \<in> set (snd (call_build_dataloader bfc ds img msk pl impl kwargs))"
    then have "w = persistent_workers_warning" by (rule eq)
    then show "w \<noteq> shuffle_ignored" by simp
  qed
qed

lemma call_build_dataloader_Inr:
  assumes "fst (call_build_dataloader bfc ds img msk pl impl kwargs) = Inr (l, ds')"
  shows "fst (build_dataloader bfc ds img msk impl pl (dict_get kwargs ''mode'' (PStr ''train''))
                (filter (\<lambda>(k, v). k \<noteq> ''mode'') kwargs)) = Inr l"
  using assms
  by (auto simp: call_build_dataloader_def raises_def split: prod.splits sum.splits if_splits)

lemma call_build_dataloader_shuffle:
  assumes "fst (call_build_dataloader bfc ds img msk pl impl kwargs) = Inr (l, ds')"
  shows "ld_shuffle l = dict_get kwargs ''shuffle'' (PBool True)"
proof -
  have "ld_shuffle l = dict_get (filter (\<lambda>(k, v). k \<noteq> ''mode'') kwargs) ''shuffle'' (PBool True)"
    using call_build_dataloader_Inr[OF assms] by (rule build_dataloader_shuffle)
  then show ?thesis by (simp add: dict_get_def map_of_filter_key)
qed

lemma validation_dataset_warnings:
  "warns_only (\<lambda>w. w \<noteq> shuffle_ignored) (validation_dataset ext cfg ds_val0 ds_val_tensors0)"
  unfolding validation_dataset_def
  by (auto intro!: warns_only_and_then split: option.splits)

lemma validation_tensors_warnings:
  "warns_only P (validation_tensors ext cfg ds_val ds_val_tensors ds_train_tensors)"
  unfolding validation_tensors_def
  by (auto intro!: warns_only_and_then)

lemma val_args_shuffle:
  "dict_get (dict_merge user_dict
       [(''samples_per_gpu'', batch_size), (''workers_per_gpu'', num_workers),
        (''dist'', PBool distributed), (''shuffle'', PBool False), (''mode'', PStr ''val''),
        (''num_gpus'', PInt (int num_gpus)), (''ignore_index'', ignore_index),
        (''reduce_zero_label'', reduce_zero_label)]) ''shuffle'' d = PBool False"
  by (rule dict_get_merge_default) simp_all

lemma register_eval_hooks_warnings:
  "warns_only (\<lambda>w. w \<noteq> shuffle_ignored)
     (register_eval_hooks ext validate cfg ds_val0 ds_val_tensors0 distributed ds_train_tensors
        batch_size num_workers ignore_index reduce_zero_label train_loader_cfg dl_impl eval_cfg0)"
  unfolding register_eval_hooks_def Let_def
  by (auto intro!: warns_only_and_then
           simp: val_args_shuffle validation_dataset_warnings validation_tensors_warnings
                 call_build_dataloader_warnings)

lemma register_eval_hooks_shuffle:
  "ensures (\<lambda>r. \<forall>hook. r = Some hook \<longrightarrow> ld_shuffle (eh_dataloader hook) = PBool False)
     (register_eval_hooks ext validate cfg ds_val0 ds_val_tensors0 distributed ds_train_tensors
        batch_size num_workers ignore_index reduce_zero_label train_loader_cfg dl_impl eval_cfg0)"
  unfolding register_eval_hooks_def Let_def
  by (auto intro!: ensures_and_then
           simp: val_args_shuffle dest!: call_build_dataloader_shuffle)

section \<open>The data-loading backend\<close>

lemma dataloader_type_cases:
  assumes "py_get cfg ''deeplake_dataloader_type'' (PStr ''auto'') = Inr (PStr flag)"
  shows "dataloader_type indra_available cfg =
     (if map lower_char flag = ''auto''
      then returns (if indra_available then ''c++'' else ''python'')
      else if map lower_char flag = ''cpp'' \<or> map lower_char flag = ''c++'' then returns ''c++''
      else if map lower_char flag = ''python'' then returns ''python''
      else raises (ValueError dataloader_type_invalid))"
  using assms by (simp add: dataloader_type_def py_lower_def Let_def)

lemma and_then_fst_Inl: "fst m = Inl e \<Longrightarrow> fst (and_then m f) = Inl e"
  by (cases m) (auto simp: and_then_def split: sum.splits prod.splits)

lemma and_then_fst_Inr: "fst m = Inr v \<Longrightarrow> fst (and_then m f) = fst (f v)"
  by (cases m) (auto simp: and_then_def split: sum.splits prod.splits)

text \<open>
  C6 (amended). For every configuration with which lines 422-438 of \<open>_train_segmentor\<close>
  succeed (\<open>cfg.data\<close> and \<open>cfg.data.train\<close> exist, and the training dataset is given or
  can be loaded) and whose \<open>deeplake_dataloader_type\<close> is a string (\<open>auto\<close> when absent),
  the data-loading backend is selected from that string compared in lower case: \<open>auto\<close>
  is the C++ backend when \<open>indra_available()\<close> is true and the python backend otherwise,
  \<open>cpp\<close> and \<open>c++\<close> are the C++ backend, \<open>python\<close> is the python backend, and every other
  string raises the \<open>ValueError\<close> that names the accepted values. When lines 422-438
  raise, that exception is the outcome, whatever the flag is.
\<close>

theorem train_segmentor_backend_selection:
  "(fst (train_config ext cfg ds_train ds_train_tensors) = Inl e \<longrightarrow>
      fst (train_segmentor_setup ext indra_available cfg ds_train ds_train_tensors) = Inl e)
   \<and> (fst (train_config ext cfg ds_train ds_train_tensors) = Inr locals
        \<and> py_get cfg ''deeplake_dataloader_type'' (PStr ''auto'') = Inr (PStr flag) \<longrightarrow>
      fst (train_segmentor_setup ext indra_available cfg ds_train ds_train_tensors) =
        (if map lower_char flag = ''auto''
         then Inr (locals, if indra_available then ''c++'' else ''python'')
         else if map lower_char flag = ''cpp'' \<or> map lower_char flag = ''c++''
         then Inr (locals, ''c++'')
         else if map lower_char flag = ''python'' then Inr (locals, ''python'')
         else Inl (ValueError dataloader_type_invalid)))"
proof (intro conjI impI; (elim conjE)?)
  assume "fst (train_config ext cfg ds_train ds_train_tensors) = Inl e"
  then show "fst (train_segmentor_setup ext indra_available cfg ds_train ds_train_tensors) = Inl e"
    unfolding train_segmentor_setup_def by (rule and_then_fst_Inl)
next
  assume ok: "fst (train_config ext cfg ds_train ds_train_tensors) = Inr locals"
    and flag: "py_get cfg ''deeplake_dataloader_type'' (PStr ''auto'') = Inr (PStr flag)"
  have "fst (train_segmentor_setup ext indra_available cfg ds_train ds_train_tensors)
      = fst (and_then (dataloader_type indra_available cfg) (\<lambda>dl_impl. returns (locals, dl_impl)))"
    unfolding train_segmentor_setup_def using ok by (rule and_then_fst_Inr)
  also have "\<dots> = (if map lower_char flag = ''auto''
         then Inr (locals, if indra_available then ''c++'' else ''python'')
         else if map lower_char flag = ''cpp'' \<or> map lower_char flag = ''c++''
         then Inr (locals, ''c++'')
         else if map lower_char flag = ''python'' then Inr (locals, ''python'')
         else Inl (ValueError dataloader_type_invalid))"
    by (simp add: dataloader_type_cases[OF flag])
  finally show "fst (train_segmentor_setup ext indra_available cfg ds_train ds_train_tensors) =
        (if map lower_char flag = ''auto''
         then Inr (locals, if indra_available then ''c++'' else ''python'')
         else if map lower_char flag = ''cpp'' \<or> map lower_char flag = ''c++''
         then Inr (locals, ''c++'')
         else if map lower_char flag = ''python'' then Inr (locals, ''python'')
         else Inl (ValueError dataloader_type_invalid))" .
qed

lemma example_train_config:
  "fst (train_config example_externals
          (PDict [(''data'', PDict [(''train'', PDict [])]),
                  (''deeplake_dataloader_type'', PStr flag)])
          (Some example_dataset) PNone)
     = Inr \<lparr>tl_batch_size = PInt 256, tl_num_workers = PInt 1, tl_ignore_index = PInt 255,
            tl_reduce_zero_label = PBool False, tl_ds_train = Some example_dataset,
            tl_ds_train_tensors = PNone, tl_eval_cfg = PDict []\<rparr>"
  by (simp add: train_config_def py_attr_def py_get_def dict_get_def returns_def pure_def
        and_then_def)

lemma example_flag:
  "py_get (PDict [(''data'', PDict [(''train'', PDict [])]),
                  (''deeplake_dataloader_type'', PStr flag)])
      ''deeplake_dataloader_type'' (PStr ''auto'') = Inr (PStr flag)"
  by (simp add: py_get_def dict_get_def)

lemma example_train_config_without_data:
  "fst (train_config example_externals (PDict [(''deeplake_dataloader_type'', PStr ''torch'')])
          (Some example_dataset) PNone)
     = Inl (AttributeError ''data'')"
  by (simp add: train_config_def py_attr_def)

theorem train_segmentor_backend_selection_witness:
  "fst (train_config example_externals
          (PDict [(''data'', PDict [(''train'', PDict [])]),
                  (''deeplake_dataloader_type'', PStr ''AUTO'')])
          (Some example_dataset) PNone)
     = Inr \<lparr>tl_batch_size = PInt 256, tl_num_workers = PInt 1, tl_ignore_index = PInt 255,
            tl_reduce_zero_label = PBool False, tl_ds_train = Some example_dataset,
            tl_ds_train_tensors = PNone, tl_eval_cfg = PDict []\<rparr>
   \<and> py_get (PDict [(''data'', PDict [(''train'', PDict [])]),
                     (''deeplake_dataloader_type'', PStr ''AUTO'')])
        ''deeplake_dataloader_type'' (PStr ''auto'') = Inr (PStr ''AUTO'')
   \<and> fst (train_segmentor_setup example_externals True
          (PDict [(''data'', PDict [(''train'', PDict [])]),
                  (''deeplake_dataloader_type'', PStr ''AUTO'')])
          (Some example_dataset) PNone)
     = Inr (\<lparr>tl_batch_size = PInt 256, tl_num_workers = PInt 1, tl_ignore_index = PInt 255,
             tl_reduce_zero_label = PBool False, tl_ds_train = Some example_dataset,
             tl_ds_train_tensors = PNone, tl_eval_cfg = PDict []\<rparr>, ''c++'')
   \<and> fst (train_segmentor_setup example_externals False
          (PDict [(''data'', PDict [(''train'', PDict [])]),
                  (''deeplake_dataloader_type'', PStr ''AUTO'')])
          (Some example_dataset) PNone)
     = Inr (\<lparr>tl_batch_size = PInt 256, tl_num_workers = PInt 1, tl_ignore_index = PInt 255,
             tl_reduce_zero_label = PBool False, tl_ds_train = Some example_dataset,
             tl_ds_train_tensors = PNone, tl_eval_cfg = PDict []\<rparr>, ''python'')
   \<and> fst (train_segmentor_setup example_externals False
          (PDict [(''data'', PDict [(''train'', PDict [])]),
                  (''deeplake_dataloader_type'', PStr ''Cpp'')])
          (Some example_dataset) PNone)
     = Inr (\<lparr>tl_batch_size = PInt 256, tl_num_workers = PInt 1, tl_ignore_index = PInt 255,
             tl_reduce_zero_label = PBool False, tl_ds_train = Some example_dataset,
             tl_ds_train_tensors = PNone, tl_eval_cfg = PDict []\<rparr>, ''c++'')
   \<and> fst (train_segmentor_setup example_externals True
          (PDict [(''data'', PDict [(''train'', PDict [])]),
                  (''deeplake_dataloader_type'', PStr ''torch'')])
          (Some example_dataset) PNone)
     = Inl (ValueError dataloader_type_invalid)
   \<and> fst (train_config example_externals (PDict [(''deeplake_dataloader_type'', PStr ''python'')])
          (Some example_dataset) PNone)
     = Inl (AttributeError ''data'')
   \<and> fst (train_segmentor_setup example_externals True
          (PDict [(''deeplake_dataloader_type'', PStr ''python'')])
          (Some example_dataset) PNone)
     = Inl (AttributeError ''data'')"
proof -
  let ?locals = "\<lparr>tl_batch_size = PInt 256, tl_num_workers = PInt 1, tl_ignore_index = PInt 255,
             tl_reduce_zero_label = PBool False, tl_ds_train = Some example_dataset,
             tl_ds_train_tensors = PNone, tl_eval_cfg = PDict []\<rparr>"
  let ?cfg = "\<lambda>flag. PDict [(''data'', PDict [(''train'', PDict [])]),
                  (''deeplake_dataloader_type'', PStr flag)]"
  have nodata: "fst (train_config example_externals
          (PDict [(''deeplake_dataloader_type'', PStr ''python'')]) (Some example_dataset) PNone)
     = Inl (AttributeError ''data'')"
    by (simp add: train_config_def py_attr_def)
  have a: "fst (train_segmentor_setup example_externals True (?cfg ''AUTO'')
                 (Some example_dataset) PNone) = Inr (?locals, ''c++'')"
    using train_segmentor_backend_selection[of example_externals "?cfg ''AUTO''"
        "Some example_dataset" PNone _ True ?locals "''AUTO''", THEN conjunct2]
      example_train_config[of "''AUTO''"] example_flag[of "''AUTO''"]
    by (simp add: lower_char_def)
  have b: "fst (train_segmentor_setup example_externals False (?cfg ''AUTO'')
                 (Some example_dataset) PNone) = Inr (?locals, ''python'')"
    using train_segmentor_backend_selection[of example_externals "?cfg ''AUTO''"
        "Some example_dataset" PNone _ False ?locals "''AUTO''", THEN conjunct2]
      example_train_config[of "''AUTO''"] example_flag[of "''AUTO''"]
    by (simp add: lower_char_def)
  have c: "fst (train_segmentor_setup example_externals False (?cfg ''Cpp'')
                 (Some example_dataset) PNone) = Inr (?locals, ''c++'')"
    using train_segmentor_backend_selection[of example_externals "?cfg ''Cpp''"
        "Some example_dataset" PNone _ False ?locals "''Cpp''", THEN conjunct2]
      example_train_config[of "''Cpp''"] example_flag[of "''Cpp''"]
    by (simp add: lower_char_def)
  have d: "fst (train_segmentor_setup example_externals True (?cfg ''torch'')
                 (Some example_dataset) PNone) = Inl (ValueError dataloader_type_invalid)"
    using train_segmentor_backend_selection[of example_externals "?cfg ''torch''"
        "Some example_dataset" PNone _ True ?locals "''torch''", THEN conjunct2]
      example_train_config[of "''torch''"] example_flag[of "''torch''"]
    by (simp add: lower_char_def)
  have e: "fst (train_segmentor_setup example_externals True
          (PDict [(''deeplake_dataloader_type'', PStr ''python'')]) (Some example_dataset) PNone)
     = Inl (AttributeError ''data'')"
    using train_segmentor_backend_selection[of example_externals
        "PDict [(''deeplake_dataloader_type'', PStr ''python'')]" "Some example_dataset" PNone
        "AttributeError ''data''" True, THEN conjunct1] nodata
    by simp
  show ?thesis
    using example_train_config[of "''AUTO''"] example_flag[of "''AUTO''"] a b c d nodata e
    by (intro conjI)
qed

theorem train_segmentor_flag_counterexample:
  "fst (train_segmentor_setup example_externals True
          (PDict [(''deeplake_dataloader_type'', PStr ''torch'')]) (Some example_dataset) PNone)
     = Inl (AttributeError ''data'')
   \<and> fst (train_segmentor_setup example_externals True
          (PDict [(''deeplake_dataloader_type'', PStr ''torch'')]) (Some example_dataset) PNone)
     \<noteq> Inl (ValueError dataloader_type_invalid)
   \<and> fst (train_segmentor_setup example_externals True
          (PDict [(''data'', PDict [(''train'', PDict [])]),
                  (''deeplake_dataloader_type'', PStr ''cpp'')]) None PNone)
     = Inl (ExternalError ''DatasetHandlerError'')"
  by (simp add: train_segmentor_setup_def train_config_def py_attr_def py_get_def dict_get_def
        lift_ext_def example_externals_def)

section \<open>The validation step\<close>

lemma and_then_Inr [simp]:
  "and_then (Inr v, ws) f = (case f v of (r, ws') \<Rightarrow> (r, ws @ ws'))"
  by (simp add: and_then_def)

lemma and_then_Inl [simp]: "and_then (Inl e, ws) f = (Inl e, ws)"
  by (simp add: and_then_def)

lemmas example_defs =
  example_externals_def example_dataset_def example_cfg_def example_cfg_without_val_def

lemmas eval_defs =
  register_eval_hooks_def validation_dataset_def validation_tensors_def
  call_build_dataloader_def build_dataloader_def make_loader_def MMSegDataset_init_def
  build_pipeline_def py_iter_def dataset_getitem_def
  py_attr_def py_get_def py_item_def py_len_def py_mapping_def
  dict_get_def dict_item_def dict_merge_def lift_ext_def
  returns_def raises_def pure_def always_warn_def Let_def

lemma example_validation_run:
  "register_eval_hooks example_externals True example_cfg (Some example_dataset)
      (PDict [(''img'', PStr ''images''), (''gt_semantic_seg'', PStr ''val_masks'')]) False
      (PDict [(''img'', PStr ''images''), (''gt_semantic_seg'', PStr ''masks'')])
      (PInt 4) (PInt 2) (PInt 255) (PBool False) [] ''python'' (PDict [])
   = (Inr (Some
        \<lparr>eh_dataloader =
           \<lparr>ld_python = True,
              ld_tensors = [PStr ''images'', PStr ''masks''],
              ld_tensors_dict =
                [(''images_tensor'', PStr ''images''), (''masks_tensor'', PStr ''masks'')],
              ld_num_workers = PInt 2, ld_shuffle = PBool False,
              ld_batch_size = PInt 4, ld_mode = PStr ''val'',
              ld_pipeline = [], ld_distributed = None,
              ld_persistent_workers = None, ld_num_gpus = PInt 1,
              ld_mmseg_CLASSES = Some [''background'', ''road''],
              ld_CLASSES = [''background'', ''road'']\<rparr>,
           eh_dataset = example_dataset\<lparr>ds_CLASSES := Some [''background'', ''road'']\<rparr>,
           eh_distributed = False,
           eh_eval_cfg = [(''by_epoch'', PBool True), (''pre_eval'', PBool False)]\<rparr>),
      [])"
  by (simp add: eval_defs example_defs)

lemma example_without_val_run:
  "register_eval_hooks example_externals True example_cfg_without_val None PNone False
      (PDict [(''img'', PStr ''images''), (''gt_semantic_seg'', PStr ''masks'')])
      (PInt 4) (PInt 2) (PInt 255) (PBool False) [] ''python'' (PDict [])
   = (Inl (AttributeError ''val''), [])"
  by (simp add: eval_defs example_defs)

lemma example_without_val_check:
  "validation_dataset example_externals example_cfg_without_val None PNone
     = (Inl (Exception validation_not_specified), [])"
  by (simp add: eval_defs example_defs)

text \<open>
  C9. For every configuration and every user-supplied \<open>deeplake_dataloader\<close> section of
  \<open>cfg.data.val\<close>: a validation data loader that \<open>_train_segmentor\<close> builds has
  \<open>shuffle = False\<close> (the default arguments are merged after the user's and override
  them), and the warning that the shuffle argument of the validation dataset will be
  ignored is never emitted.
\<close>

theorem validation_never_shuffles:
  "(\<forall>hook.
      fst (register_eval_hooks ext validate cfg ds_val0 ds_val_tensors0 distributed
             ds_train_tensors batch_size num_workers ignore_index reduce_zero_label
             train_loader_cfg dl_impl eval_cfg0) = Inr (Some hook)
      \<longrightarrow> ld_shuffle (eh_dataloader hook) = PBool False)
   \<and> shuffle_ignored \<notin>
         set (snd (register_eval_hooks ext validate cfg ds_val0 ds_val_tensors0 distributed
                     ds_train_tensors batch_size num_workers ignore_index reduce_zero_label
                     train_loader_cfg dl_impl eval_cfg0))"
  using register_eval_hooks_shuffle[of ext validate cfg ds_val0 ds_val_tensors0 distributed
          ds_train_tensors batch_size num_workers ignore_index reduce_zero_label
          train_loader_cfg dl_impl eval_cfg0]
    register_eval_hooks_warnings[of ext validate cfg ds_val0 ds_val_tensors0 distributed
          ds_train_tensors batch_size num_workers ignore_index reduce_zero_label
          train_loader_cfg dl_impl eval_cfg0]
  unfolding ensures_def warns_only_def by blast

theorem validation_never_shuffles_witness:
  "py_get (PDict [(''deeplake_dataloader'', PDict [(''shuffle'', PBool True)])])
       ''deeplake_dataloader'' (PDict []) = Inr (PDict [(''shuffle'', PBool True)])
   \<and> (\<exists>hook.
         fst (register_eval_hooks example_externals True example_cfg (Some example_dataset)
                (PDict [(''img'', PStr ''images''), (''gt_semantic_seg'', PStr ''val_masks'')])
                False (PDict [(''img'', PStr ''images''), (''gt_semantic_seg'', PStr ''masks'')])
                (PInt 4) (PInt 2) (PInt 255) (PBool False) [] ''python'' (PDict []))
           = Inr (Some hook)
         \<and> ld_shuffle (eh_dataloader hook) = PBool False)
   \<and> shuffle_ignored \<notin>
         set (snd (register_eval_hooks example_externals True example_cfg (Some example_dataset)
                (PDict [(''img'', PStr ''images''), (''gt_semantic_seg'', PStr ''val_masks'')])
                False (PDict [(''img'', PStr ''images''), (''gt_semantic_seg'', PStr ''masks'')])
                (PInt 4) (PInt 2) (PInt 255) (PBool False) [] ''python'' (PDict [])))"
proof -
  have user: "py_get (PDict [(''deeplake_dataloader'', PDict [(''shuffle'', PBool True)])])
       ''deeplake_dataloader'' (PDict []) = Inr (PDict [(''shuffle'', PBool True)])"
    by (simp add: py_get_def dict_get_def)
  show ?thesis
    using user
      validation_never_shuffles[of example_externals True example_cfg "Some example_dataset"
        "PDict [(''img'', PStr ''images''), (''gt_semantic_seg'', PStr ''val_masks'')]" False
        "PDict [(''img'', PStr ''images''), (''gt_semantic_seg'', PStr ''masks'')]"
        "PInt 4" "PInt 2" "PInt 255" "PBool False" "[]" "''python''" "PDict []"]
    by (simp add: example_validation_run)
qed







lemma register_eval_hooks_not_validate:
  "register_eval_hooks ext False cfg ds_val0 ds_val_tensors0 distributed ds_train_tensors
     batch_size num_workers ignore_index reduce_zero_label train_loader_cfg dl_impl eval_cfg0
     = returns None"
  by (simp add: register_eval_hooks_def)

lemma validation_dataset_without_path:
  assumes "py_attr cfg ''data'' = Inr (PDict d)"
    and "map_of d ''val'' = None \<or> map_of d ''val'' = Some PNone
         \<or> (\<exists>v. map_of d ''val'' = Some (PDict v) \<and> dict_get v ''deeplake_path'' PNone = PNone)"
  shows "validation_dataset ext cfg None ds_val_tensors0
           = raises (Exception validation_not_specified)"
  using assms by (auto simp: validation_dataset_def py_get_def dict_get_def)

lemma register_eval_hooks_without_val:
  assumes "py_attr cfg ''gpu_ids'' = Inr gpu_ids" "py_len gpu_ids = Inr n"
    and "py_attr cfg ''data'' = Inr (PDict d)" "map_of d ''val'' = None"
  shows "register_eval_hooks ext True cfg ds_val0 ds_val_tensors0 distributed ds_train_tensors
     batch_size num_workers ignore_index reduce_zero_label train_loader_cfg dl_impl eval_cfg0
     = raises (AttributeError ''val'')"
  using assms by (simp add: register_eval_hooks_def py_attr_def)

text \<open>
  C2, at a configuration without \<open>cfg.data.val\<close>, with \<open>validate\<close> true and no validation
  dataset passed: the check of lines 591-596 would raise the documented exception, but the
  validation step raises \<open>AttributeError\<close> before it reaches that check, when line 580 reads
  \<open>cfg.data.val\<close>.
\<close>

theorem validation_without_val_entry:
  "register_eval_hooks example_externals True example_cfg_without_val None PNone False
      (PDict [(''img'', PStr ''images''), (''gt_semantic_seg'', PStr ''masks'')])
      (PInt 4) (PInt 2) (PInt 255) (PBool False) [] ''python'' (PDict [])
     = (Inl (AttributeError ''val''), [])
   \<and> validation_dataset example_externals example_cfg_without_val None PNone
     = (Inl (Exception validation_not_specified), [])"
  by (simp add: example_without_val_run example_without_val_check)

end
